theory Spec2Isabelle
  imports Main
begin

section \<open>Data model\<close>

text \<open>
  The persistent model follows the Prisma schema of the repository: a table of users and a
  table of refresh tokens. Identifiers are opaque strings generated by the database; the
  model uses natural numbers. Dates are milliseconds since the epoch, as \<open>Date.now()\<close>
  reports them.
\<close>

datatype Role = USER | ADMIN | SUPER_ADMIN

record User =
  user_id :: nat
  email :: string
  username :: string
  passwordHash :: string
  firstName :: "string option"
  lastName :: "string option"
  isActive :: bool
  isVerified :: bool
  role :: Role
  lastLoginAt :: "nat option"
  createdAt :: nat
  updatedAt :: nat

datatype token_type = access | refresh

text \<open>\<open>TokenPayload\<close> of the service; \<open>JwtPayload\<close> of the middleware adds the two
  timestamps that the signing library writes (both in seconds).\<close>

record TokenPayload =
  sub :: nat
  p_email :: string
  p_role :: Role
  p_type :: token_type

record JwtPayload = TokenPayload +
  iat :: nat
  exp :: nat

text \<open>
  A token string. \<open>Signed p k\<close> is the compact serialisation of the claims \<open>p\<close> signed with
  the key \<open>k\<close>: signing with HS256 is deterministic, so the same claims and key give the
  same string, and different claims or keys give different strings. \<open>NotJwt s\<close> is any
  other string \<open>s\<close>, the empty string included.
\<close>

datatype jwt_string = NotJwt string | Signed JwtPayload string

record RefreshToken =
  rt_id :: nat
  token :: jwt_string
  userId :: nat
  expiresAt :: nat
  isRevoked :: bool
  rt_createdAt :: nat

record db =
  users :: "User list"
  refreshTokens :: "RefreshToken list"

text \<open>The \<open>jwt\<close> section of the configuration. The configuration loader rejects a missing
  or empty \<open>JWT_SECRET\<close>, so signing never fails for want of a key.\<close>

record Config =
  secret :: string
  accessTokenExpiresIn :: string
  refreshTokenExpiresIn :: string

record TokenPair =
  accessToken :: jwt_string
  refreshToken :: jwt_string

record SafeUser =
  s_id :: nat
  s_email :: string
  s_username :: string
  s_firstName :: "string option"
  s_lastName :: "string option"
  s_role :: Role
  s_isActive :: bool
  s_isVerified :: bool
  s_createdAt :: nat

record RegisterInput =
  r_email :: string
  r_username :: string
  r_password :: string
  r_firstName :: "string option"
  r_lastName :: "string option"

record LoginInput =
  l_email :: string
  l_password :: string

record RequestUser =
  ru_id :: nat
  ru_email :: string
  ru_role :: Role

text \<open>The \<open>Authorization\<close> header: \<open>Bearer t\<close> is a header that starts with
  \<open>"Bearer "\<close>, \<open>t\<close> being what follows the seven characters; \<open>OtherHeader s\<close> is any
  other header value.\<close>

datatype authorization_header = Bearer jwt_string | OtherHeader string

record Request =
  authorization :: "authorization_header option"

section \<open>Errors\<close>

text \<open>
  Everything the modelled code can throw. The first four are the application's own error
  classes, carrying their message. \<open>JsonWebTokenError\<close> and \<open>TokenExpiredError\<close> are the
  classes of the signing library; \<open>PrismaClientKnownRequestError\<close> carries the error code
  of the persistence client.
\<close>

datatype thrown =
    AuthenticationError string
  | AuthorizationError string
  | NotFoundError string
  | ConflictError string
  | JsonWebTokenError string
  | TokenExpiredError string
  | PrismaClientKnownRequestError string
  | TypeError

text \<open>\<open>new NotFoundError(resource)\<close> builds the message \<open>`${resource} not found`\<close>.\<close>

definition new_NotFoundError :: "string \<Rightarrow> thrown" where
  "new_NotFoundError resource = NotFoundError (resource @ '' not found'')"

text \<open>
  \<open>error instanceof jwt.JsonWebTokenError\<close>. In the signing library
  \<open>TokenExpiredError\<close> is derived from \<open>JsonWebTokenError\<close>
  (\<open>TokenExpiredError.prototype = Object.create(JsonWebTokenError.prototype)\<close>), so an
  expiry error is an instance of both classes.
\<close>

fun instanceof_JsonWebTokenError :: "thrown \<Rightarrow> bool" where
  "instanceof_JsonWebTokenError (JsonWebTokenError m) = True"
| "instanceof_JsonWebTokenError (TokenExpiredError m) = True"
| "instanceof_JsonWebTokenError e = False"

fun instanceof_TokenExpiredError :: "thrown \<Rightarrow> bool" where
  "instanceof_TokenExpiredError (TokenExpiredError m) = True"
| "instanceof_TokenExpiredError e = False"

section \<open>Signing library\<close>

text \<open>
  \<open>jwt.sign(payload, secret, {expiresIn})\<close> at clock reading \<open>now\<close> (milliseconds):
  \<open>iat\<close> is the clock in whole seconds and \<open>exp\<close> is \<open>iat + expiresIn\<close>.
\<close>

definition jwt_sign :: "TokenPayload \<Rightarrow> string \<Rightarrow> nat \<Rightarrow> nat \<Rightarrow> jwt_string" where
  "jwt_sign payload secretOrKey expiresIn now =
     Signed \<lparr>sub = sub payload, p_email = p_email payload, p_role = p_role payload,
             p_type = p_type payload,
             iat = now div 1000, exp = now div 1000 + expiresIn\<rparr> secretOrKey"

text \<open>
  \<open>jwt.verify(token, secret)\<close> at clock reading \<open>now\<close>: the signature is checked first,
  then the expiry (\<open>clockTimestamp >= payload.exp\<close> is expired). A string that is no
  token raises \<open>JsonWebTokenError\<close>; the library words its message after the way the
  string fails to parse, and the model keeps two of the wordings.
\<close>

fun jwt_verify :: "jwt_string \<Rightarrow> string \<Rightarrow> nat \<Rightarrow> thrown + JwtPayload" where
  "jwt_verify (NotJwt s) secretOrKey now =
     Inl (JsonWebTokenError (if s = [] then ''jwt must be provided'' else ''jwt malformed''))"
| "jwt_verify (Signed payload k) secretOrKey now =
     (if k \<noteq> secretOrKey then Inl (JsonWebTokenError ''invalid signature'')
      else if exp payload \<le> now div 1000 then Inl (TokenExpiredError ''jwt expired'')
      else Inr payload)"

text \<open>Truthiness of a token string in a condition: only the empty string is falsy.\<close>

definition truthy :: "jwt_string \<Rightarrow> bool" where
  "truthy t = (t \<noteq> NotJwt [])"

section \<open>Persistence client\<close>

definition next_id :: "nat list \<Rightarrow> nat" where
  "next_id ids = Suc (fold max ids 0)"

definition user_findUnique_email :: "db \<Rightarrow> string \<Rightarrow> User option" where
  "user_findUnique_email st e = find (\<lambda>u. email u = e) (users st)"

definition user_findUnique_username :: "db \<Rightarrow> string \<Rightarrow> User option" where
  "user_findUnique_username st n = find (\<lambda>u. username u = n) (users st)"

definition user_findUnique_id :: "db \<Rightarrow> nat \<Rightarrow> User option" where
  "user_findUnique_id st i = find (\<lambda>u. user_id u = i) (users st)"

text \<open>\<open>prisma.user.create\<close>: the unique constraints on email and username are enforced
  (code P2002); the schema's defaults fill the remaining columns.\<close>

definition user_create ::
  "db \<Rightarrow> nat \<Rightarrow> string \<Rightarrow> string \<Rightarrow> string \<Rightarrow> string option \<Rightarrow> string option
     \<Rightarrow> thrown + (User \<times> db)" where
  "user_create st now e n h fn ln =
     (if user_findUnique_email st e \<noteq> None \<or> user_findUnique_username st n \<noteq> None
      then Inl (PrismaClientKnownRequestError ''P2002'')
      else let user = \<lparr>user_id = next_id (map user_id (users st)), email = e, username = n,
                        passwordHash = h, firstName = fn, lastName = ln, isActive = True,
                        isVerified = False, role = USER, lastLoginAt = None,
                        createdAt = now, updatedAt = now\<rparr>
           in Inr (user, st\<lparr>users := users st @ [user]\<rparr>))"

text \<open>\<open>prisma.user.update({where: {id}, data: {lastLoginAt}})\<close>: P2025 when no record
  has the id.\<close>

definition user_update_lastLoginAt :: "db \<Rightarrow> nat \<Rightarrow> nat \<Rightarrow> thrown + db" where
  "user_update_lastLoginAt st i now =
     (if user_findUnique_id st i = None then Inl (PrismaClientKnownRequestError ''P2025'')
      else Inr (st\<lparr>users := map (\<lambda>u. if user_id u = i
                                       then u\<lparr>lastLoginAt := Some now, updatedAt := now\<rparr>
                                       else u) (users st)\<rparr>))"

definition refreshToken_findUnique :: "db \<Rightarrow> jwt_string \<Rightarrow> RefreshToken option" where
  "refreshToken_findUnique st t = find (\<lambda>r. token r = t) (refreshTokens st)"

text \<open>\<open>prisma.refreshToken.create\<close>: the token column is unique (P2002) and the user
  column is a foreign key (P2003).\<close>

definition refreshToken_create :: "db \<Rightarrow> nat \<Rightarrow> jwt_string \<Rightarrow> nat \<Rightarrow> nat \<Rightarrow> thrown + db" where
  "refreshToken_create st now t u ea =
     (if refreshToken_findUnique st t \<noteq> None then Inl (PrismaClientKnownRequestError ''P2002'')
      else if user_findUnique_id st u = None then Inl (PrismaClientKnownRequestError ''P2003'')
      else Inr (st\<lparr>refreshTokens := refreshTokens st @
                  [\<lparr>rt_id = next_id (map rt_id (refreshTokens st)), token = t, userId = u,
                    expiresAt = ea, isRevoked = False, rt_createdAt = now\<rparr>]\<rparr>))"

text \<open>\<open>prisma.refreshToken.update({where: {id}, data: {isRevoked: true}})\<close>.\<close>

definition refreshToken_update_revoke :: "db \<Rightarrow> nat \<Rightarrow> thrown + db" where
  "refreshToken_update_revoke st i =
     (if find (\<lambda>r. rt_id r = i) (refreshTokens st) = None
      then Inl (PrismaClientKnownRequestError ''P2025'')
      else Inr (st\<lparr>refreshTokens := map (\<lambda>r. if rt_id r = i then r\<lparr>isRevoked := True\<rparr> else r)
                                         (refreshTokens st)\<rparr>))"

text \<open>\<open>prisma.refreshToken.updateMany({where, data: {isRevoked: true}})\<close>; it never
  fails, whatever the number of rows that match.\<close>

definition refreshToken_updateMany_revoke :: "db \<Rightarrow> (RefreshToken \<Rightarrow> bool) \<Rightarrow> db" where
  "refreshToken_updateMany_revoke st wh =
     st\<lparr>refreshTokens := map (\<lambda>r. if wh r then r\<lparr>isRevoked := True\<rparr> else r) (refreshTokens st)\<rparr>"

section \<open>Session service\<close>

text \<open>
  Every operation takes the store and returns its result together with the store it
  leaves behind, so that a failure after a write keeps the write, as in the source, which
  has no transaction around its steps. An operation reads the clock more than once
  (signing, verifying, \<open>new Date()\<close>); the model gives each call one reading \<open>now\<close>.
\<close>

definition isDigit :: "char \<Rightarrow> bool" where
  "isDigit c = (c \<in> set ''0123456789'')"

definition parseInt :: "string \<Rightarrow> nat" where
  "parseInt ds = foldl (\<lambda>n c. 10 * n + (of_char c - 48)) 0 ds"

text \<open>\<open>parseDuration\<close>: the pattern \<open>/^(\\d+)([smhd])$/\<close> asks for one or more digits and
  one unit letter; anything else gives the default of 900 seconds. Numbers are exact
  here; the source computes in double precision, exact below \<open>2^53\<close>.\<close>

definition parseDuration :: "string \<Rightarrow> nat" where
  "parseDuration duration =
     (if duration = [] then 900
      else let ds = butlast duration; unit = last duration in
        if ds = [] \<or> \<not> list_all isDigit ds then 900
        else let v = parseInt ds in
          if unit = CHR ''s'' then v
          else if unit = CHR ''m'' then v * 60
          else if unit = CHR ''h'' then v * 60 * 60
          else if unit = CHR ''d'' then v * 60 * 60 * 24
          else 900)"

text \<open>
  The server's time zone. \<open>LocalTime\<close> and \<open>UTC\<close> are the two conversions of the
  language standard: from an instant to the local time value of the zone, and from a local
  time value back to an instant. They belong to the runtime and the machine's zone
  setting, not to the repository, and are a parameter of the model.
\<close>

record TimeZone =
  LocalTime :: "nat \<Rightarrow> nat"
  UTC :: "nat \<Rightarrow> nat"

definition msPerDay :: nat where
  "msPerDay = 24 * 60 * 60 * 1000"

text \<open>
  \<open>expiresAt.setDate(expiresAt.getDate() + 7)\<close> on a date holding the instant \<open>t\<close>: the
  day of the month of the local time value is raised by seven, a day number past the end
  of the month running on into the next one, so the local time value grows by seven
  times \<open>msPerDay\<close>; the result is converted back to an instant. This is seven calendar
  days later on the server's local clock, which is \<open>t\<close> plus seven times 24 hours only
  when the zone has no clock change in between.
\<close>

definition setDate_plus7 :: "TimeZone \<Rightarrow> nat \<Rightarrow> nat" where
  "setDate_plus7 tz t = UTC tz (LocalTime tz t + 7 * msPerDay)"


definition utc_zone :: TimeZone where
  "utc_zone = \<lparr>LocalTime = (\<lambda>t. t), UTC = (\<lambda>t. t)\<rparr>"

text \<open>\<open>generateTokens\<close>, at clock reading \<open>now\<close> on a server in zone \<open>tz\<close>. The user
  argument is the triple of id, email and role that the function reads.\<close>

definition generateTokens ::
  "TimeZone \<Rightarrow> Config \<Rightarrow> nat \<Rightarrow> nat \<times> string \<times> Role \<Rightarrow> db
     \<Rightarrow> (thrown + TokenPair) \<times> db" where
  "generateTokens tz cfg now user st =
     (case user of (uid, uemail, urole) \<Rightarrow>
        let accessPayload = \<lparr>sub = uid, p_email = uemail, p_role = urole, p_type = access\<rparr>;
            refreshPayload = \<lparr>sub = uid, p_email = uemail, p_role = urole, p_type = refresh\<rparr>;
            accessExpiresIn = parseDuration (accessTokenExpiresIn cfg);
            refreshExpiresIn = parseDuration (refreshTokenExpiresIn cfg);
            at = jwt_sign accessPayload (secret cfg) accessExpiresIn now;
            rt = jwt_sign refreshPayload (secret cfg) refreshExpiresIn now;
            ea = setDate_plus7 tz now
        in (case refreshToken_create st now rt uid ea of
              Inl e \<Rightarrow> (Inl e, st)
            | Inr st' \<Rightarrow> (Inr \<lparr>accessToken = at, refreshToken = rt\<rparr>, st')))"

definition toSafeUser :: "User \<Rightarrow> SafeUser" where
  "toSafeUser user =
     \<lparr>s_id = user_id user, s_email = email user, s_username = username user,
      s_firstName = firstName user, s_lastName = lastName user, s_role = role user,
      s_isActive = isActive user, s_isVerified = isVerified user,
      s_createdAt = createdAt user\<rparr>"

text \<open>\<open>register\<close>. \<open>hashPassword\<close> is the password hashing function of the external
  hashing library.\<close>

definition register ::
  "(string \<Rightarrow> string) \<Rightarrow> TimeZone \<Rightarrow> Config \<Rightarrow> nat \<Rightarrow> RegisterInput \<Rightarrow> db
     \<Rightarrow> (thrown + SafeUser \<times> TokenPair) \<times> db" where
  "register hashPassword tz cfg now data st =
     (if user_findUnique_email st (r_email data) \<noteq> None
      then (Inl (ConflictError ''Email already registered''), st)
      else if user_findUnique_username st (r_username data) \<noteq> None
      then (Inl (ConflictError ''Username already taken''), st)
      else (case user_create st now (r_email data) (r_username data)
                   (hashPassword (r_password data)) (r_firstName data) (r_lastName data) of
              Inl e \<Rightarrow> (Inl e, st)
            | Inr (user, st1) \<Rightarrow>
                (case generateTokens tz cfg now (user_id user, email user, role user) st1 of
                   (Inl e, st2) \<Rightarrow> (Inl e, st2)
                 | (Inr tokens, st2) \<Rightarrow> (Inr (toSafeUser user, tokens), st2))))"

text \<open>\<open>login\<close>. \<open>verifyPassword\<close> is the comparison function of the external hashing
  library.\<close>

definition login ::
  "(string \<Rightarrow> string \<Rightarrow> bool) \<Rightarrow> TimeZone \<Rightarrow> Config \<Rightarrow> nat \<Rightarrow> LoginInput \<Rightarrow> db
     \<Rightarrow> (thrown + SafeUser \<times> TokenPair) \<times> db" where
  "login verifyPassword tz cfg now data st =
     (case user_findUnique_email st (l_email data) of
        None \<Rightarrow> (Inl (AuthenticationError ''Invalid email or password''), st)
      | Some user \<Rightarrow>
          if \<not> isActive user then (Inl (AuthenticationError ''Account is disabled''), st)
          else if \<not> verifyPassword (l_password data) (passwordHash user)
          then (Inl (AuthenticationError ''Invalid email or password''), st)
          else (case user_update_lastLoginAt st (user_id user) now of
                  Inl e \<Rightarrow> (Inl e, st)
                | Inr st1 \<Rightarrow>
                    (case generateTokens tz cfg now (user_id user, email user, role user) st1 of
                       (Inl e, st2) \<Rightarrow> (Inl e, st2)
                     | (Inr tokens, st2) \<Rightarrow> (Inr (toSafeUser user, tokens), st2))))"

text \<open>\<open>refreshAccessToken\<close>. The bare \<open>catch\<close> around the verification turns every
  failure of it into one message. The stored row is read together with its user
  (\<open>include: {user: true}\<close>); the foreign key makes the user present, and were it
  absent, reading its fields would raise a \<open>TypeError\<close>.\<close>

definition refreshAccessToken ::
  "TimeZone \<Rightarrow> Config \<Rightarrow> nat \<Rightarrow> jwt_string \<Rightarrow> db \<Rightarrow> (thrown + TokenPair) \<times> db" where
  "refreshAccessToken tz cfg now rt st =
     (case jwt_verify rt (secret cfg) now of
        Inl e \<Rightarrow> (Inl (AuthenticationError ''Invalid refresh token''), st)
      | Inr payload \<Rightarrow>
          if p_type payload \<noteq> refresh then (Inl (AuthenticationError ''Invalid token type''), st)
          else (case refreshToken_findUnique st rt of
                  None \<Rightarrow> (Inl (AuthenticationError ''Token has been revoked''), st)
                | Some storedToken \<Rightarrow>
                    let storedUser = user_findUnique_id st (userId storedToken) in
                    if isRevoked storedToken
                    then (Inl (AuthenticationError ''Token has been revoked''), st)
                    else if expiresAt storedToken < now
                    then (Inl (AuthenticationError ''Token has expired''), st)
                    else (case refreshToken_update_revoke st (rt_id storedToken) of
                            Inl e \<Rightarrow> (Inl e, st)
                          | Inr st1 \<Rightarrow>
                              (case storedUser of
                                 None \<Rightarrow> (Inl TypeError, st1)
                               | Some user \<Rightarrow>
                                   generateTokens tz cfg now
                                     (user_id user, email user, role user) st1))))"

text \<open>\<open>logout\<close>. The optional token is supplied when it is present and truthy.\<close>

definition logout :: "nat \<Rightarrow> jwt_string option \<Rightarrow> db \<Rightarrow> db" where
  "logout uid rt st =
     (case rt of
        Some t \<Rightarrow>
          if truthy t
          then refreshToken_updateMany_revoke st (\<lambda>r. token r = t \<and> userId r = uid)
          else refreshToken_updateMany_revoke st (\<lambda>r. userId r = uid)
      | None \<Rightarrow> refreshToken_updateMany_revoke st (\<lambda>r. userId r = uid))"

definition getCurrentUser :: "nat \<Rightarrow> db \<Rightarrow> thrown + SafeUser" where
  "getCurrentUser uid st =
     (case user_findUnique_id st uid of
        None \<Rightarrow> Inl (new_NotFoundError ''User'')
      | Some user \<Rightarrow> Inr (toSafeUser user))"

section \<open>Authorization gate\<close>

definition extractToken :: "Request \<Rightarrow> jwt_string option" where
  "extractToken req =
     (case authorization req of
        Some (Bearer t) \<Rightarrow> Some t
      | _ \<Rightarrow> None)"

text \<open>The body of the \<open>try\<close> block of \<open>authenticate\<close>: \<open>Inl\<close> is what it throws,
  \<open>Inr\<close> the identity it attaches to the request.\<close>

definition authenticate_try :: "Config \<Rightarrow> nat \<Rightarrow> Request \<Rightarrow> db \<Rightarrow> thrown + RequestUser" where
  "authenticate_try cfg now req st =
     (case extractToken req of
        None \<Rightarrow> Inl (AuthenticationError ''No token provided'')
      | Some t \<Rightarrow>
          if \<not> truthy t then Inl (AuthenticationError ''No token provided'')
          else (case jwt_verify t (secret cfg) now of
                  Inl e \<Rightarrow> Inl e
                | Inr payload \<Rightarrow>
                    if p_type payload \<noteq> access
                    then Inl (AuthenticationError ''Invalid token type'')
                    else (case user_findUnique_id st (sub payload) of
                            None \<Rightarrow> Inl (AuthenticationError ''User not found or inactive'')
                          | Some user \<Rightarrow>
                              if \<not> isActive user
                              then Inl (AuthenticationError ''User not found or inactive'')
                              else Inr \<lparr>ru_id = user_id user, ru_email = email user,
                                        ru_role = role user\<rparr>)))"

text \<open>\<open>authenticate\<close>: the \<open>catch\<close> block tests the two library classes in this order
  and passes everything else on. \<open>Inl e\<close> is \<open>next(e)\<close>, \<open>Inr u\<close> is \<open>next()\<close> with
  \<open>req.user = u\<close>.\<close>

definition authenticate :: "Config \<Rightarrow> nat \<Rightarrow> Request \<Rightarrow> db \<Rightarrow> thrown + RequestUser" where
  "authenticate cfg now req st =
     (case authenticate_try cfg now req st of
        Inl error \<Rightarrow>
          if instanceof_JsonWebTokenError error then Inl (AuthenticationError ''Invalid token'')
          else if instanceof_TokenExpiredError error then Inl (AuthenticationError ''Token expired'')
          else Inl error
      | Inr u \<Rightarrow> Inr u)"

section \<open>Sample data\<close>

text \<open>Concrete configurations, users and stores on which the theorems below are
  evaluated.\<close>

definition ex_cfg :: Config where
  "ex_cfg = \<lparr>secret = ''k'', accessTokenExpiresIn = ''15m'', refreshTokenExpiresIn = ''1h''\<rparr>"



definition ex_alice :: User where
  "ex_alice = \<lparr>user_id = 1, email = ''a@x.com'', username = ''alice'', passwordHash = ''h:Passw0rd'',
     firstName = None, lastName = None, isActive = True, isVerified = False, role = USER,
     lastLoginAt = None, createdAt = 0, updatedAt = 0\<rparr>"

definition ex_bob :: User where
  "ex_bob = \<lparr>user_id = 2, email = ''b@x.com'', username = ''bob'', passwordHash = ''h:Hunter22'',
     firstName = None, lastName = None, isActive = False, isVerified = False, role = USER,
     lastLoginAt = None, createdAt = 0, updatedAt = 0\<rparr>"

definition ex_token :: "nat \<Rightarrow> token_type \<Rightarrow> nat \<Rightarrow> nat \<Rightarrow> jwt_string" where
  "ex_token u ty i e =
     Signed \<lparr>sub = u, p_email = (if u = 1 then ''a@x.com'' else ''b@x.com''), p_role = USER,
             p_type = ty, iat = i, exp = e\<rparr> ''k''"

definition ex_row :: "nat \<Rightarrow> jwt_string \<Rightarrow> nat \<Rightarrow> bool \<Rightarrow> RefreshToken" where
  "ex_row i t u rv =
     \<lparr>rt_id = i, token = t, userId = u, expiresAt = 604800000, isRevoked = rv, rt_createdAt = 0\<rparr>"

definition ex_db :: db where
  "ex_db = \<lparr>users = [ex_alice, ex_bob],
            refreshTokens = [ex_row 1 (ex_token 1 refresh 0 3600) 1 False,
                             ex_row 2 (ex_token 1 refresh 5 3605) 1 False,
                             ex_row 3 (ex_token 2 refresh 0 3600) 2 False]\<rparr>"

definition ex_verifyPassword :: "string \<Rightarrow> string \<Rightarrow> bool" where
  "ex_verifyPassword p h = (h = ''h:'' @ p)"

definition ex_hashPassword :: "string \<Rightarrow> string" where
  "ex_hashPassword p = ''h:'' @ p"

definition ex_reg :: "string \<Rightarrow> string \<Rightarrow> RegisterInput" where
  "ex_reg e n = \<lparr>r_email = e, r_username = n, r_password = ''Passw0rd'', r_firstName = None,
                 r_lastName = None\<rparr>"

definition ex_carol_safe :: SafeUser where
  "ex_carol_safe = \<lparr>s_id = 3, s_email = ''new@x.com'', s_username = ''carol'', s_firstName = None,
     s_lastName = None, s_role = USER, s_isActive = True, s_isVerified = False, s_createdAt = 9000\<rparr>"

text \<open>The pair that \<open>generateTokens\<close> signs under \<open>ex_cfg\<close> in clock second \<open>i\<close>.\<close>

definition ex_pair :: "nat \<Rightarrow> string \<Rightarrow> nat \<Rightarrow> TokenPair" where
  "ex_pair u e i =
     \<lparr>accessToken = Signed \<lparr>sub = u, p_email = e, p_role = USER, p_type = access,
                             iat = i, exp = i + 900\<rparr> ''k'',
      refreshToken = Signed \<lparr>sub = u, p_email = e, p_role = USER, p_type = refresh,
                              iat = i, exp = i + 3600\<rparr> ''k''\<rparr>"

section \<open>Vocabulary of the properties\<close>





text \<open>The rows that \<open>logout\<close> selects.\<close>

definition selected :: "nat \<Rightarrow> jwt_string option \<Rightarrow> RefreshToken \<Rightarrow> bool" where
  "selected uid rt r =
     (case rt of
        Some t \<Rightarrow> if truthy t then token r = t \<and> userId r = uid else userId r = uid
      | None \<Rightarrow> userId r = uid)"

text \<open>The refresh token and the access token that \<open>generateTokens\<close> signs for a user at
  clock reading \<open>now\<close>.\<close>

definition next_refresh_token :: "Config \<Rightarrow> nat \<Rightarrow> User \<Rightarrow> jwt_string" where
  "next_refresh_token cfg now user =
     jwt_sign \<lparr>sub = user_id user, p_email = email user, p_role = role user, p_type = refresh\<rparr>
       (secret cfg) (parseDuration (refreshTokenExpiresIn cfg)) now"

definition next_access_token :: "Config \<Rightarrow> nat \<Rightarrow> User \<Rightarrow> jwt_string" where
  "next_access_token cfg now user =
     jwt_sign \<lparr>sub = user_id user, p_email = email user, p_role = role user, p_type = access\<rparr>
       (secret cfg) (parseDuration (accessTokenExpiresIn cfg)) now"

text \<open>The store after a rotation: the rows with the id of the presented row are revoked
  and one row is appended for the new token.\<close>

definition rotated :: "TimeZone \<Rightarrow> Config \<Rightarrow> nat \<Rightarrow> RefreshToken \<Rightarrow> User \<Rightarrow> db \<Rightarrow> db" where
  "rotated tz cfg now r user st =
     st\<lparr>refreshTokens :=
          map (\<lambda>x. if rt_id x = rt_id r then x\<lparr>isRevoked := True\<rparr> else x) (refreshTokens st) @
          [\<lparr>rt_id = next_id (map rt_id (refreshTokens st)),
            token = next_refresh_token cfg now user, userId = user_id user,
            expiresAt = setDate_plus7 tz now, isRevoked = False, rt_createdAt = now\<rparr>]\<rparr>"

text \<open>The store with the \<open>isActive\<close> flag of every user replaced.\<close>

definition set_isActive :: "(User \<Rightarrow> bool) \<Rightarrow> db \<Rightarrow> db" where
  "set_isActive f st = st\<lparr>users := map (\<lambda>u. u\<lparr>isActive := f u\<rparr>) (users st)\<rparr>"

text \<open>A store with a token of a thirty-day embedded lifetime and a revoked row.\<close>

definition ex_db_long :: db where
  "ex_db_long = \<lparr>users = [ex_alice, ex_bob],
                 refreshTokens = [ex_row 1 (ex_token 1 refresh 0 2592000) 1 False,
                                  ex_row 2 (ex_token 2 refresh 0 3600) 2 True]\<rparr>"

text \<open>The requests that reach the session service, and the store after serving a list of
  them, each at its own clock reading. A request changes the store whether it
  succeeds or fails part-way.\<close>

datatype call =
    Register RegisterInput
  | Login LoginInput
  | Refresh jwt_string
  | Logout nat "jwt_string option"

fun handle ::
  "(string \<Rightarrow> string) \<Rightarrow> (string \<Rightarrow> string \<Rightarrow> bool) \<Rightarrow> TimeZone \<Rightarrow> Config \<Rightarrow> nat \<Rightarrow> call
     \<Rightarrow> db \<Rightarrow> db" where
  "handle hp vp tz cfg now (Register d) st = snd (register hp tz cfg now d st)"
| "handle hp vp tz cfg now (Login d) st = snd (login vp tz cfg now d st)"
| "handle hp vp tz cfg now (Refresh t) st = snd (refreshAccessToken tz cfg now t st)"
| "handle hp vp tz cfg now (Logout uid rt) st = logout uid rt st"

fun serve ::
  "(string \<Rightarrow> string) \<Rightarrow> (string \<Rightarrow> string \<Rightarrow> bool) \<Rightarrow> TimeZone \<Rightarrow> Config
     \<Rightarrow> (nat \<times> call) list \<Rightarrow> db \<Rightarrow> db" where
  "serve hp vp tz cfg [] st = st"
| "serve hp vp tz cfg ((now, c) # cs) st = serve hp vp tz cfg cs (handle hp vp tz cfg now c st)"

text \<open>The store holds a row for the token and the row is revoked.\<close>

definition revoked_in :: "db \<Rightarrow> jwt_string \<Rightarrow> bool" where
  "revoked_in st t = (case refreshToken_findUnique st t of None \<Rightarrow> False | Some r \<Rightarrow> isRevoked r)"

text \<open>The token with the same subject, email, role and type, signed at \<open>now\<close> with the
  configured refresh duration.\<close>

fun reissued :: "Config \<Rightarrow> nat \<Rightarrow> jwt_string \<Rightarrow> jwt_string" where
  "reissued cfg now (Signed p k) =
     jwt_sign \<lparr>sub = sub p, p_email = p_email p, p_role = p_role p, p_type = p_type p\<rparr>
       (secret cfg) (parseDuration (refreshTokenExpiresIn cfg)) now"
| "reissued cfg now (NotJwt s) = NotJwt s"

text \<open>The sample store after the first sample token was rotated at clock reading 9000.\<close>

definition ex_db_rotated :: db where
  "ex_db_rotated = \<lparr>users = [ex_alice, ex_bob],
       refreshTokens = [ex_row 1 (ex_token 1 refresh 0 3600) 1 True,
                        ex_row 2 (ex_token 1 refresh 5 3605) 1 False,
                        ex_row 3 (ex_token 2 refresh 0 3600) 2 False,
                        \<lparr>rt_id = 4, token = ex_token 1 refresh 9 3609, userId = 1,
                          expiresAt = 604809000, isRevoked = False, rt_createdAt = 9000\<rparr>]\<rparr>"

section \<open>The sample data evaluated\<close>

lemma ex_cfg_simps:
  "secret ex_cfg = ''k''"
  "parseDuration (accessTokenExpiresIn ex_cfg) = 900"
  "parseDuration (refreshTokenExpiresIn ex_cfg) = 3600"
  by (simp_all add: ex_cfg_def parseDuration_def parseInt_def isDigit_def)

lemma ex_db_emails:
  "user_findUnique_email ex_db ''a@x.com'' = Some ex_alice"
  "user_findUnique_email ex_db ''b@x.com'' = Some ex_bob"
  "user_findUnique_email ex_db ''new@x.com'' = None"
  "user_findUnique_email ex_db ''nobody@x.com'' = None"
  by (simp_all add: user_findUnique_email_def ex_db_def ex_alice_def ex_bob_def)

lemma ex_db_usernames:
  "user_findUnique_username ex_db ''alice'' = Some ex_alice"
  "user_findUnique_username ex_db ''bob'' = Some ex_bob"
  "user_findUnique_username ex_db ''carol'' = None"
  by (simp_all add: user_findUnique_username_def ex_db_def ex_alice_def ex_bob_def)

lemma ex_db_ids:
  "user_findUnique_id ex_db 1 = Some ex_alice"
  "user_findUnique_id ex_db 2 = Some ex_bob"
  "user_findUnique_id ex_db 3 = None"
  by (simp_all add: user_findUnique_id_def ex_db_def ex_alice_def ex_bob_def)

section \<open>Authorization gate: properties\<close>

lemma verified_is_truthy: "jwt_verify t k now = Inr payload \<Longrightarrow> truthy t"
  by (cases t) (auto simp: truthy_def)

text \<open>The \<open>try\<close> block itself never throws an application error with the expiry
  message, and the \<open>catch\<close> block never reaches its second test with an expiry error, so
  the gate never reports \<open>Token expired\<close>.\<close>

lemma authenticate_try_not_expired_message:
  "authenticate_try cfg now req st \<noteq> Inl (AuthenticationError ''Token expired'')"
proof (cases "extractToken req")
  case None
  then show ?thesis by (simp add: authenticate_try_def)
next
  case (Some t)
  show ?thesis
  proof (cases t)
    case (NotJwt s)
    then show ?thesis using Some by (simp add: authenticate_try_def)
  next
    case (Signed p k)
    then show ?thesis using Some
      by (simp add: authenticate_try_def split: option.split)
  qed
qed

lemma authenticate_never_token_expired:
  "authenticate cfg now req st \<noteq> Inl (AuthenticationError ''Token expired'')"
proof (cases "authenticate_try cfg now req st")
  case (Inl e)
  have "e \<noteq> AuthenticationError ''Token expired''"
    using Inl authenticate_try_not_expired_message[of cfg now req st] by auto
  then show ?thesis using Inl
    by (cases e) (simp_all add: authenticate_def)
next
  case (Inr u)
  then show ?thesis by (simp add: authenticate_def)
qed

lemma authenticate_bad_signature:
  "k \<noteq> secret cfg \<Longrightarrow>
   authenticate cfg now \<lparr>authorization = Some (Bearer (Signed p k))\<rparr> st
     = Inl (AuthenticationError ''Invalid token'')"
  by (simp add: authenticate_def authenticate_try_def extractToken_def truthy_def)

text \<open>
  Claim C3. A bearer token whose signature does not verify gives
  \<open>AuthenticationError("Invalid token")\<close>, and a correctly signed token whose expiry has
  elapsed should give the distinct \<open>AuthenticationError("Token expired")\<close>. The code
  does not do the second: an access token of the first sample user, signed with the
  configured key and expired at second 900, presented at second 900, raises
  \<open>TokenExpiredError\<close> in the verification, and the gate answers
  \<open>Invalid token\<close>, exactly as for a token signed with a foreign key.
\<close>

theorem authenticate_expired_token_reported_invalid:
  "jwt_verify (ex_token 1 access 0 900) (secret ex_cfg) 900000 = Inl (TokenExpiredError ''jwt expired'')
   \<and> authenticate ex_cfg 900000 \<lparr>authorization = Some (Bearer (ex_token 1 access 0 900))\<rparr> ex_db
       = Inl (AuthenticationError ''Invalid token'')
   \<and> authenticate ex_cfg 900000 \<lparr>authorization = Some (Bearer (Signed \<lparr>sub = 1, p_email = ''a@x.com'', p_role = USER, p_type = access,
                    iat = 0, exp = 900\<rparr> ''other key''))\<rparr> ex_db
       = Inl (AuthenticationError ''Invalid token'')"
  by (simp add: authenticate_def authenticate_try_def extractToken_def truthy_def
      ex_token_def ex_cfg_def)

text \<open>
  Claim C6. A token that the verification accepts (correctly signed, not expired) and
  whose type is not \<open>access\<close> is rejected by the gate with
  \<open>AuthenticationError("Invalid token type")\<close>, whatever the store holds: the user table
  is not consulted, so the answer is the same when the user is absent or inactive.
\<close>

theorem authenticate_rejects_non_access:
  assumes "jwt_verify t (secret cfg) now = Inr payload" and "p_type payload \<noteq> access"
  shows "authenticate cfg now \<lparr>authorization = Some (Bearer t)\<rparr> st
           = Inl (AuthenticationError ''Invalid token type'')"
proof -
  have "truthy t" using assms(1) by (rule verified_is_truthy)
  then show ?thesis using assms
    by (simp add: authenticate_def authenticate_try_def extractToken_def)
qed

theorem authenticate_rejects_non_access_witness:
  "jwt_verify (ex_token 1 refresh 0 3600) (secret ex_cfg) 1000
     = Inr \<lparr>sub = 1, p_email = ''a@x.com'', p_role = USER, p_type = refresh, iat = 0, exp = 3600\<rparr>
   \<and> authenticate ex_cfg 1000 \<lparr>authorization = Some (Bearer (ex_token 1 refresh 0 3600))\<rparr> ex_db
       = Inl (AuthenticationError ''Invalid token type'')"
proof -
  have v: "jwt_verify (ex_token 1 refresh 0 3600) (secret ex_cfg) 1000
     = Inr \<lparr>sub = 1, p_email = ''a@x.com'', p_role = USER, p_type = refresh, iat = 0, exp = 3600\<rparr>"
    by (simp add: ex_token_def ex_cfg_def)
  show ?thesis
    using v authenticate_rejects_non_access [OF v, of ex_db] by simp
qed

section \<open>Session service: login, register and the safe projection\<close>

text \<open>
  Claim C4. A login with an email that no user has, and a login with the email of an active
  account and a password that does not verify, fail with the same
  \<open>AuthenticationError("Invalid email or password")\<close> and leave the store as it was; a
  login against an account with \<open>isActive = false\<close> fails with the different message
  \<open>Account is disabled\<close>, whatever the password.
\<close>

theorem login_error_messages:
  "(user_findUnique_email st1 (l_email d1) = None \<longrightarrow>
      login vp tz cfg now1 d1 st1 = (Inl (AuthenticationError ''Invalid email or password''), st1))
   \<and> (user_findUnique_email st2 (l_email d2) = Some u \<and> isActive u
        \<and> \<not> vp (l_password d2) (passwordHash u) \<longrightarrow>
      login vp tz cfg now2 d2 st2 = (Inl (AuthenticationError ''Invalid email or password''), st2))
   \<and> (user_findUnique_email st3 (l_email d3) = Some v \<and> \<not> isActive v \<longrightarrow>
      login vp tz cfg now3 d3 st3 = (Inl (AuthenticationError ''Account is disabled''), st3)
      \<and> AuthenticationError ''Account is disabled''
          \<noteq> AuthenticationError ''Invalid email or password'')"
  by (simp add: login_def)

theorem login_error_messages_witness:
  "user_findUnique_email ex_db ''nobody@x.com'' = None
   \<and> user_findUnique_email ex_db ''a@x.com'' = Some ex_alice \<and> isActive ex_alice
   \<and> \<not> ex_verifyPassword ''wrong'' (passwordHash ex_alice)
   \<and> user_findUnique_email ex_db ''b@x.com'' = Some ex_bob \<and> \<not> isActive ex_bob
   \<and> fst (login ex_verifyPassword utc_zone ex_cfg 5000 \<lparr>l_email = ''nobody@x.com'', l_password = ''Passw0rd''\<rparr> ex_db)
       = fst (login ex_verifyPassword utc_zone ex_cfg 6000 \<lparr>l_email = ''a@x.com'', l_password = ''wrong''\<rparr> ex_db)
   \<and> fst (login ex_verifyPassword utc_zone ex_cfg 6000 \<lparr>l_email = ''a@x.com'', l_password = ''wrong''\<rparr> ex_db)
       = Inl (AuthenticationError ''Invalid email or password'')
   \<and> fst (login ex_verifyPassword utc_zone ex_cfg 7000 \<lparr>l_email = ''b@x.com'', l_password = ''Hunter22''\<rparr> ex_db)
       = Inl (AuthenticationError ''Account is disabled'')"
proof -
  have b1: "isActive ex_alice" by (simp add: ex_alice_def)
  have b2: "\<not> ex_verifyPassword ''wrong'' (passwordHash ex_alice)"
    by (simp add: ex_verifyPassword_def ex_alice_def)
  have c1: "\<not> isActive ex_bob" by (simp add: ex_bob_def)
  show ?thesis
    using ex_db_emails b1 b2 c1
      login_error_messages [where ?st1.0 = ex_db
        and ?d1.0 = "\<lparr>l_email = ''nobody@x.com'', l_password = ''Passw0rd''\<rparr>"
        and vp = ex_verifyPassword and tz = utc_zone and cfg = ex_cfg and ?now1.0 = 5000 and ?st2.0 = ex_db
        and ?d2.0 = "\<lparr>l_email = ''a@x.com'', l_password = ''wrong''\<rparr>"
        and u = ex_alice and ?now2.0 = 6000 and ?st3.0 = ex_db
        and ?d3.0 = "\<lparr>l_email = ''b@x.com'', l_password = ''Hunter22''\<rparr>"
        and v = ex_bob and ?now3.0 = 7000]
    by simp
qed

text \<open>
  Claim C7. \<open>register\<close> fails with a conflict error when the email exists, and this is
  tested first; it fails with a conflict error when the email is new and the username
  exists. A request whose email and username both exist therefore reports the email
  conflict only. When neither exists, no conflict error is raised. A failed registration
  leaves the store as it was.
\<close>

theorem register_conflict_order:
  "(user_findUnique_email st (r_email d) \<noteq> None \<longrightarrow>
      register hp tz cfg now d st = (Inl (ConflictError ''Email already registered''), st))
   \<and> (user_findUnique_email st (r_email d) = None
        \<and> user_findUnique_username st (r_username d) \<noteq> None \<longrightarrow>
      register hp tz cfg now d st = (Inl (ConflictError ''Username already taken''), st))
   \<and> (user_findUnique_email st (r_email d) = None
        \<and> user_findUnique_username st (r_username d) = None \<longrightarrow>
      (\<forall>m. fst (register hp tz cfg now d st) \<noteq> Inl (ConflictError m)))"
  by (auto simp: register_def user_create_def generateTokens_def refreshToken_create_def Let_def
      split: sum.splits prod.splits if_splits)

theorem register_conflict_order_witness:
  "user_findUnique_email ex_db ''a@x.com'' \<noteq> None
   \<and> user_findUnique_username ex_db ''bob'' \<noteq> None
   \<and> register ex_hashPassword utc_zone ex_cfg 5000 (ex_reg ''a@x.com'' ''bob'') ex_db
       = (Inl (ConflictError ''Email already registered''), ex_db)
   \<and> user_findUnique_email ex_db ''new@x.com'' = None
   \<and> user_findUnique_username ex_db ''alice'' \<noteq> None
   \<and> register ex_hashPassword utc_zone ex_cfg 5000 (ex_reg ''new@x.com'' ''alice'') ex_db
       = (Inl (ConflictError ''Username already taken''), ex_db)
   \<and> user_findUnique_username ex_db ''carol'' = None
   \<and> (\<forall>m. fst (register ex_hashPassword utc_zone ex_cfg 5000 (ex_reg ''new@x.com'' ''carol'') ex_db)
            \<noteq> Inl (ConflictError m))"
  using ex_db_emails ex_db_usernames
    register_conflict_order [of ex_db "ex_reg ''a@x.com'' ''bob''" ex_hashPassword utc_zone ex_cfg 5000]
    register_conflict_order [of ex_db "ex_reg ''new@x.com'' ''alice''" ex_hashPassword utc_zone ex_cfg 5000]
    register_conflict_order [of ex_db "ex_reg ''new@x.com'' ''carol''" ex_hashPassword utc_zone ex_cfg 5000]
  by (simp add: ex_reg_def)

lemma find_append_new:
  "find P xs = None \<Longrightarrow> P x \<Longrightarrow> find P (xs @ [x]) = Some x"
  by (induction xs) (auto split: if_splits)

lemma generateTokens_users:
  "users (snd (generateTokens tz cfg now user st)) = users st"
  by (cases user) (simp add: generateTokens_def refreshToken_create_def Let_def)

text \<open>
  Claim C9. The user that \<open>register\<close>, \<open>login\<close> and \<open>getCurrentUser\<close> return is a
  \<open>SafeUser\<close>, a record without a password hash, and it is the projection
  \<open>toSafeUser\<close> of the stored user; the projection does not depend on the stored
  password hash.
\<close>

theorem safe_user_excludes_passwordHash:
  "toSafeUser (u\<lparr>passwordHash := h\<rparr>) = toSafeUser u
   \<and> (fst (register hp tz cfg now rd st) = Inr (su, tk) \<longrightarrow>
        (\<exists>user. user_findUnique_email (snd (register hp tz cfg now rd st)) (r_email rd) = Some user
                \<and> su = toSafeUser user))
   \<and> (fst (login vp tz cfg now ld st) = Inr (su, tk) \<longrightarrow>
        (\<exists>user. user_findUnique_email st (l_email ld) = Some user \<and> su = toSafeUser user))
   \<and> (getCurrentUser uid st = Inr su \<longrightarrow>
        (\<exists>user. user_findUnique_id st uid = Some user \<and> su = toSafeUser user))"
proof (intro conjI impI)
  show "toSafeUser (u\<lparr>passwordHash := h\<rparr>) = toSafeUser u"
    by (simp add: toSafeUser_def)
next
  assume r: "fst (register hp tz cfg now rd st) = Inr (su, tk)"
  show "\<exists>user. user_findUnique_email (snd (register hp tz cfg now rd st)) (r_email rd) = Some user
                \<and> su = toSafeUser user"
  proof -
    from r have e: "user_findUnique_email st (r_email rd) = None"
      and n: "user_findUnique_username st (r_username rd) = None"
      by (auto simp: register_def split: if_splits)
    obtain user st1 where c: "user_create st now (r_email rd) (r_username rd)
                   (hp (r_password rd)) (r_firstName rd) (r_lastName rd) = Inr (user, st1)"
      using e n by (simp add: user_create_def Let_def)
    have em: "email user = r_email rd" and st1: "users st1 = users st @ [user]"
      using c e n by (auto simp: user_create_def Let_def)
    have f: "user_findUnique_email st1 (r_email rd) = Some user"
      using e em st1 by (simp add: user_findUnique_email_def find_append_new)
    obtain res st2 where
      g: "generateTokens tz cfg now (user_id user, email user, role user) st1 = (res, st2)"
      by (cases "generateTokens tz cfg now (user_id user, email user, role user) st1")
    have u2: "users st2 = users st1"
      using generateTokens_users[of tz cfg now "(user_id user, email user, role user)" st1] g
      by simp
    have reg: "register hp tz cfg now rd st =
        (case res of Inl e \<Rightarrow> (Inl e, st2) | Inr tokens \<Rightarrow> (Inr (toSafeUser user, tokens), st2))"
      using e n c g by (simp add: register_def split: sum.splits)
    from r reg have "su = toSafeUser user" by (cases res) auto
    moreover have "snd (register hp tz cfg now rd st) = st2" using reg by (cases res) auto
    ultimately show ?thesis using f u2 by (simp add: user_findUnique_email_def)
  qed
next
  assume l: "fst (login vp tz cfg now ld st) = Inr (su, tk)"
  then show "\<exists>user. user_findUnique_email st (l_email ld) = Some user \<and> su = toSafeUser user"
    by (auto simp: login_def split: option.splits if_splits sum.splits prod.splits)
next
  assume "getCurrentUser uid st = Inr su"
  then show "\<exists>user. user_findUnique_id st uid = Some user \<and> su = toSafeUser user"
    by (auto simp: getCurrentUser_def split: option.splits)
qed

lemma ex_register_carol:
  "fst (register ex_hashPassword utc_zone ex_cfg 9000 (ex_reg ''new@x.com'' ''carol'') ex_db)
     = Inr (ex_carol_safe, ex_pair 3 ''new@x.com'' 9)"
  by (simp add: register_def user_create_def user_findUnique_email_def
      user_findUnique_username_def ex_reg_def generateTokens_def Let_def jwt_sign_def setDate_plus7_def utc_zone_def msPerDay_def
      refreshToken_create_def refreshToken_findUnique_def user_findUnique_id_def ex_cfg_simps
      toSafeUser_def ex_carol_safe_def ex_pair_def next_id_def
      ex_db_def ex_alice_def ex_bob_def ex_row_def ex_token_def)

lemma ex_login_alice:
  "fst (login ex_verifyPassword utc_zone ex_cfg 9000 \<lparr>l_email = ''a@x.com'', l_password = ''Passw0rd''\<rparr> ex_db)
     = Inr (toSafeUser ex_alice, ex_pair 1 ''a@x.com'' 9)"
  by (simp add: login_def user_findUnique_email_def toSafeUser_def user_update_lastLoginAt_def
      generateTokens_def Let_def jwt_sign_def setDate_plus7_def utc_zone_def msPerDay_def
      refreshToken_create_def refreshToken_findUnique_def user_findUnique_id_def ex_cfg_simps
      ex_verifyPassword_def ex_pair_def
      ex_db_def ex_alice_def ex_bob_def ex_row_def ex_token_def)

theorem safe_user_excludes_passwordHash_witness:
  "fst (register ex_hashPassword utc_zone ex_cfg 9000 (ex_reg ''new@x.com'' ''carol'') ex_db)
     = Inr (ex_carol_safe, ex_pair 3 ''new@x.com'' 9)
   \<and> (\<exists>user. user_findUnique_email
                (snd (register ex_hashPassword utc_zone ex_cfg 9000 (ex_reg ''new@x.com'' ''carol'') ex_db))
                ''new@x.com'' = Some user
             \<and> ex_carol_safe = toSafeUser user)
   \<and> fst (login ex_verifyPassword utc_zone ex_cfg 9000 \<lparr>l_email = ''a@x.com'', l_password = ''Passw0rd''\<rparr> ex_db)
       = Inr (toSafeUser ex_alice, ex_pair 1 ''a@x.com'' 9)
   \<and> getCurrentUser 1 ex_db = Inr (toSafeUser ex_alice)
   \<and> toSafeUser (ex_alice\<lparr>passwordHash := ''other''\<rparr>) = toSafeUser ex_alice"
  using ex_register_carol ex_login_alice ex_db_ids
    safe_user_excludes_passwordHash [where u = ex_alice and h = "''other''"
      and hp = ex_hashPassword and tz = utc_zone and cfg = ex_cfg and now = 9000
      and rd = "ex_reg ''new@x.com'' ''carol''" and st = ex_db and su = ex_carol_safe
      and tk = "ex_pair 3 ''new@x.com'' 9"]
    safe_user_excludes_passwordHash [where vp = ex_verifyPassword and tz = utc_zone and cfg = ex_cfg and now = 9000
      and ld = "\<lparr>l_email = ''a@x.com'', l_password = ''Passw0rd''\<rparr>" and st = ex_db
      and su = "toSafeUser ex_alice" and tk = "ex_pair 1 ''a@x.com'' 9" and uid = 1]
  by (simp add: ex_reg_def getCurrentUser_def)

section \<open>Issuance and the stored expiry\<close>










section \<open>Logout\<close>

lemma logout_rows:
  "refreshTokens (logout uid rt st)
     = map (\<lambda>r. if selected uid rt r then r\<lparr>isRevoked := True\<rparr> else r) (refreshTokens st)"
  by (simp add: logout_def refreshToken_updateMany_revoke_def selected_def split: option.split)

lemma logout_users: "users (logout uid rt st) = users st"
  by (simp add: logout_def refreshToken_updateMany_revoke_def split: option.split)

lemma logout_nth:
  "i < length (refreshTokens st) \<Longrightarrow>
   refreshTokens (logout uid rt st) ! i =
     (if selected uid rt (refreshTokens st ! i) then (refreshTokens st ! i)\<lparr>isRevoked := True\<rparr>
      else refreshTokens st ! i)"
  by (simp add: logout_rows)

text \<open>
  Claim C8, as amended. \<open>logout\<close> never fails, leaves the users alone and keeps every
  row in place. With a non-empty token \<open>t\<close> it sets \<open>isRevoked\<close> on exactly the rows
  whose token is \<open>t\<close> and whose user is \<open>uid\<close>, and changes nothing else. Without a
  token, or with the empty string as the token, it sets \<open>isRevoked\<close> on exactly the rows
  of user \<open>uid\<close>, and changes no row of another user.
\<close>

theorem logout_frame:
  "users (logout uid rt st) = users st
   \<and> length (refreshTokens (logout uid rt st)) = length (refreshTokens st)
   \<and> (t \<noteq> NotJwt [] \<longrightarrow>
        (\<forall>i < length (refreshTokens st).
           refreshTokens (logout uid (Some t) st) ! i =
             (if token (refreshTokens st ! i) = t \<and> userId (refreshTokens st ! i) = uid
              then (refreshTokens st ! i)\<lparr>isRevoked := True\<rparr>
              else refreshTokens st ! i)))
   \<and> (rt = None \<or> rt = Some (NotJwt []) \<longrightarrow>
        (\<forall>i < length (refreshTokens st).
           refreshTokens (logout uid rt st) ! i =
             (if userId (refreshTokens st ! i) = uid
              then (refreshTokens st ! i)\<lparr>isRevoked := True\<rparr>
              else refreshTokens st ! i)))"
proof (intro conjI allI impI)
  show "users (logout uid rt st) = users st" by (rule logout_users)
  show "length (refreshTokens (logout uid rt st)) = length (refreshTokens st)"
    by (simp add: logout_rows)
next
  fix i assume t: "t \<noteq> NotJwt []" and i: "i < length (refreshTokens st)"
  have "selected uid (Some t) (refreshTokens st ! i)
          = (token (refreshTokens st ! i) = t \<and> userId (refreshTokens st ! i) = uid)"
    using t by (simp add: selected_def truthy_def)
  then show "refreshTokens (logout uid (Some t) st) ! i =
             (if token (refreshTokens st ! i) = t \<and> userId (refreshTokens st ! i) = uid
              then (refreshTokens st ! i)\<lparr>isRevoked := True\<rparr>
              else refreshTokens st ! i)"
    using logout_nth [OF i, of uid "Some t"] by simp
next
  fix i assume rt: "rt = None \<or> rt = Some (NotJwt [])" and i: "i < length (refreshTokens st)"
  have "selected uid rt (refreshTokens st ! i) = (userId (refreshTokens st ! i) = uid)"
    using rt by (auto simp: selected_def truthy_def)
  then show "refreshTokens (logout uid rt st) ! i =
             (if userId (refreshTokens st ! i) = uid
              then (refreshTokens st ! i)\<lparr>isRevoked := True\<rparr>
              else refreshTokens st ! i)"
    using logout_nth [OF i, of uid rt] by simp
qed

theorem logout_frame_witness:
  "refreshTokens (logout 1 (Some (ex_token 1 refresh 5 3605)) ex_db) ! 0
     = ex_row 1 (ex_token 1 refresh 0 3600) 1 False
   \<and> refreshTokens (logout 1 (Some (ex_token 1 refresh 5 3605)) ex_db) ! 1
     = ex_row 2 (ex_token 1 refresh 5 3605) 1 True
   \<and> refreshTokens (logout 2 (Some (ex_token 1 refresh 5 3605)) ex_db) ! 1
     = ex_row 2 (ex_token 1 refresh 5 3605) 1 False
   \<and> refreshTokens (logout 1 None ex_db) ! 0 = ex_row 1 (ex_token 1 refresh 0 3600) 1 True
   \<and> refreshTokens (logout 1 None ex_db) ! 1 = ex_row 2 (ex_token 1 refresh 5 3605) 1 True
   \<and> refreshTokens (logout 1 None ex_db) ! 2 = ex_row 3 (ex_token 2 refresh 0 3600) 2 False
   \<and> refreshTokens (logout 1 (Some (NotJwt [])) ex_db) ! 2
     = ex_row 3 (ex_token 2 refresh 0 3600) 2 False"
proof -
  have len: "length (refreshTokens ex_db) = 3" by (simp add: ex_db_def)
  have ne: "ex_token 1 refresh 5 3605 \<noteq> NotJwt []" by (simp add: ex_token_def)
  have A: "i < 3 \<Longrightarrow> refreshTokens (logout uid (Some (ex_token 1 refresh 5 3605)) ex_db) ! i =
             (if token (refreshTokens ex_db ! i) = ex_token 1 refresh 5 3605
                 \<and> userId (refreshTokens ex_db ! i) = uid
              then (refreshTokens ex_db ! i)\<lparr>isRevoked := True\<rparr>
              else refreshTokens ex_db ! i)" for i uid
    using logout_frame [where uid = uid and rt = None and st = ex_db
                          and t = "ex_token 1 refresh 5 3605"] ne len
    by simp
  have B: "i < 3 \<Longrightarrow> rt = None \<or> rt = Some (NotJwt []) \<Longrightarrow>
           refreshTokens (logout uid rt ex_db) ! i =
             (if userId (refreshTokens ex_db ! i) = uid
              then (refreshTokens ex_db ! i)\<lparr>isRevoked := True\<rparr>
              else refreshTokens ex_db ! i)" for i uid rt
    using logout_frame [where uid = uid and rt = rt and st = ex_db and t = "NotJwt []"] len
    by simp
  show ?thesis
    using A [of 0 1] A [of 1 1] A [of 1 2] B [of 0 None 1] B [of 1 None 1] B [of 2 None 1]
      B [of 2 "Some (NotJwt [])" 1]
    by (simp add: ex_db_def ex_row_def ex_token_def)
qed

text \<open>
  Claim C8 as stated fails when the token argument is the empty string, which the request
  schema admits: \<open>logout(1, "")\<close> takes the branch without a token and revokes the first
  row of the sample store, a row of user 1 whose token is not the empty string.
\<close>

theorem logout_empty_token_counterexample:
  "refreshTokens ex_db ! 0 = ex_row 1 (ex_token 1 refresh 0 3600) 1 False
   \<and> token (refreshTokens ex_db ! 0) \<noteq> NotJwt []
   \<and> refreshTokens (logout 1 (Some (NotJwt [])) ex_db) ! 0
       = ex_row 1 (ex_token 1 refresh 0 3600) 1 True
   \<and> refreshTokens (logout 1 (Some (NotJwt [])) ex_db) ! 0 \<noteq> refreshTokens ex_db ! 0"
  by (simp add: logout_def refreshToken_updateMany_revoke_def truthy_def ex_db_def ex_row_def
      ex_token_def)

section \<open>Refresh: validity of a presented token\<close>

lemma find_append_old:
  "find P xs = Some x \<Longrightarrow> find P (xs @ ys) = Some x"
  by (induction xs) (auto split: if_splits)

lemma find_Some_same:
  "find P xs = Some x \<Longrightarrow> find (\<lambda>y. g y = g x) xs \<noteq> None"
  by (induction xs) (auto split: if_splits)

lemma find_token_map:
  "(\<And>x. token (f x) = token x) \<Longrightarrow>
   find (\<lambda>r. token r = t) (map f xs) = map_option f (find (\<lambda>r. token r = t) xs)"
  by (induction xs) auto

lemma find_Some_P: "find P xs = Some x \<Longrightarrow> P x"
  by (auto simp: find_Some_iff)

lemma refresh_missing:
  assumes "jwt_verify t (secret cfg) now = Inr p" "p_type p = refresh"
    and "refreshToken_findUnique st t = None"
  shows "refreshAccessToken tz cfg now t st = (Inl (AuthenticationError ''Token has been revoked''), st)"
  using assms by (simp add: refreshAccessToken_def)

lemma refresh_revoked:
  assumes "jwt_verify t (secret cfg) now = Inr p" "p_type p = refresh"
    and "refreshToken_findUnique st t = Some r" "isRevoked r"
  shows "refreshAccessToken tz cfg now t st = (Inl (AuthenticationError ''Token has been revoked''), st)"
  using assms by (simp add: refreshAccessToken_def Let_def)

lemma refresh_expired:
  assumes "jwt_verify t (secret cfg) now = Inr p" "p_type p = refresh"
    and "refreshToken_findUnique st t = Some r" "\<not> isRevoked r" "expiresAt r < now"
  shows "refreshAccessToken tz cfg now t st = (Inl (AuthenticationError ''Token has expired''), st)"
  using assms by (simp add: refreshAccessToken_def Let_def)

lemma refresh_unverified:
  assumes "jwt_verify t (secret cfg) now = Inl e"
  shows "refreshAccessToken tz cfg now t st = (Inl (AuthenticationError ''Invalid refresh token''), st)"
  using assms by (simp add: refreshAccessToken_def)

lemma refresh_wrong_type:
  assumes "jwt_verify t (secret cfg) now = Inr p" "p_type p \<noteq> refresh"
  shows "refreshAccessToken tz cfg now t st = (Inl (AuthenticationError ''Invalid token type''), st)"
  using assms by (simp add: refreshAccessToken_def)

lemma refresh_valid_reduces:
  assumes v: "jwt_verify t (secret cfg) now = Inr p" "p_type p = refresh"
    and r: "refreshToken_findUnique st t = Some r" "\<not> isRevoked r" "\<not> expiresAt r < now"
  shows "refreshAccessToken tz cfg now t st =
     (case user_findUnique_id st (userId r) of
        None \<Rightarrow> (Inl TypeError,
                 st\<lparr>refreshTokens := map (\<lambda>x. if rt_id x = rt_id r then x\<lparr>isRevoked := True\<rparr> else x)
                                         (refreshTokens st)\<rparr>)
      | Some user \<Rightarrow>
          generateTokens tz cfg now (user_id user, email user, role user)
            (st\<lparr>refreshTokens := map (\<lambda>x. if rt_id x = rt_id r then x\<lparr>isRevoked := True\<rparr> else x)
                                         (refreshTokens st)\<rparr>))"
proof -
  have "find (\<lambda>x. rt_id x = rt_id r) (refreshTokens st) \<noteq> None"
    using r(1) unfolding refreshToken_findUnique_def by (rule find_Some_same)
  then obtain y where "find (\<lambda>x. rt_id x = rt_id r) (refreshTokens st) = Some y"
    by auto
  then show ?thesis
    using v r by (simp add: refreshAccessToken_def Let_def refreshToken_update_revoke_def)
qed

lemma refresh_succeeds:
  assumes v: "jwt_verify t (secret cfg) now = Inr p" "p_type p = refresh"
    and r: "refreshToken_findUnique st t = Some r" "\<not> isRevoked r" "\<not> expiresAt r < now"
    and u: "user_findUnique_id st (userId r) = Some user"
    and n: "refreshToken_findUnique st (next_refresh_token cfg now user) = None"
  shows "refreshAccessToken tz cfg now t st =
           (Inr \<lparr>accessToken = next_access_token cfg now user,
                  refreshToken = next_refresh_token cfg now user\<rparr>,
            rotated tz cfg now r user st)"
proof -
  let ?f = "\<lambda>x. if rt_id x = rt_id r then x\<lparr>isRevoked := True\<rparr> else x"
  let ?st1 = "st\<lparr>refreshTokens := map ?f (refreshTokens st)\<rparr>"
  have uid: "user_id user = userId r"
    using u unfolding user_findUnique_id_def by (rule find_Some_P)
  have tok: "\<And>x. token (?f x) = token x"
    by simp
  have n1: "refreshToken_findUnique ?st1 (next_refresh_token cfg now user) = None"
    using n unfolding refreshToken_findUnique_def
    by (simp add: find_token_map [of ?f, OF tok])
  have u1: "user_findUnique_id ?st1 (user_id user) = Some user"
    using u uid by (simp add: user_findUnique_id_def)
  have ids: "map (rt_id \<circ> ?f) (refreshTokens st) = map rt_id (refreshTokens st)"
    by simp
  have g: "generateTokens tz cfg now (user_id user, email user, role user) ?st1 =
           (Inr \<lparr>accessToken = next_access_token cfg now user,
                  refreshToken = next_refresh_token cfg now user\<rparr>,
            rotated tz cfg now r user st)"
    using n1 u1
    by (simp add: generateTokens_def Let_def refreshToken_create_def next_refresh_token_def
        next_access_token_def rotated_def ids)
  show ?thesis
    using refresh_valid_reduces [OF v r] u g by simp
qed

lemma refresh_success_conditions:
  assumes "fst (refreshAccessToken tz cfg now t st) = Inr tp"
  shows "\<exists>p r user. jwt_verify t (secret cfg) now = Inr p \<and> p_type p = refresh
           \<and> refreshToken_findUnique st t = Some r \<and> \<not> isRevoked r \<and> \<not> expiresAt r < now
           \<and> user_findUnique_id st (userId r) = Some user
           \<and> refreshToken_findUnique st (next_refresh_token cfg now user) = None"
proof (cases "jwt_verify t (secret cfg) now")
  case (Inl e)
  then show ?thesis using assms by (simp add: refresh_unverified)
next
  case (Inr p)
  note v = this
  show ?thesis
  proof (cases "p_type p = refresh")
    case False
    then show ?thesis using assms v by (simp add: refresh_wrong_type)
  next
    case True
    note ty = this
    show ?thesis
    proof (cases "refreshToken_findUnique st t")
      case None
      then show ?thesis using assms v ty by (simp add: refresh_missing)
    next
      case (Some r)
      note r = this
      have nr: "\<not> isRevoked r" using assms refresh_revoked [OF v ty r] by auto
      have ne: "\<not> expiresAt r < now" using assms refresh_expired [OF v ty r nr] by auto
      note red = refresh_valid_reduces [OF v ty r nr ne]
      show ?thesis
      proof (cases "user_findUnique_id st (userId r)")
        case None
        then show ?thesis using assms red by simp
      next
        case (Some user)
        let ?f = "\<lambda>x. if rt_id x = rt_id r then x\<lparr>isRevoked := True\<rparr> else x"
        let ?st1 = "st\<lparr>refreshTokens := map ?f (refreshTokens st)\<rparr>"
        have tok: "\<And>x. token (?f x) = token x"
          by simp
        have "refreshToken_findUnique ?st1 (next_refresh_token cfg now user) = None"
          using assms red Some
          by (auto simp: generateTokens_def Let_def refreshToken_create_def
              next_refresh_token_def split: if_splits)
        then have "refreshToken_findUnique st (next_refresh_token cfg now user) = None"
          unfolding refreshToken_findUnique_def
          by (simp add: find_token_map [of ?f, OF tok])
        then show ?thesis using v ty r nr ne Some by blast
      qed
    qed
  qed
qed

lemma refresh_accepted_token:
  assumes "jwt_verify t (secret cfg) now = Inr p" and "p_type p = refresh"
  shows "(refreshToken_findUnique st t = None
            \<or> (refreshToken_findUnique st t = Some r \<and> isRevoked r) \<longrightarrow>
          refreshAccessToken tz cfg now t st
            = (Inl (AuthenticationError ''Token has been revoked''), st))
       \<and> (refreshToken_findUnique st t = Some r \<and> \<not> isRevoked r \<and> expiresAt r < now \<longrightarrow>
          refreshAccessToken tz cfg now t st
            = (Inl (AuthenticationError ''Token has expired''), st))
       \<and> (fst (refreshAccessToken tz cfg now t st) = Inr tp \<longrightarrow>
          (\<exists>r'. refreshToken_findUnique st t = Some r' \<and> \<not> isRevoked r'
                \<and> \<not> expiresAt r' < now))
       \<and> (refreshToken_findUnique st t = Some r \<and> \<not> isRevoked r \<and> \<not> expiresAt r < now
            \<and> user_findUnique_id st (userId r) = Some user
            \<and> refreshToken_findUnique st (next_refresh_token cfg now user) = None \<longrightarrow>
          fst (refreshAccessToken tz cfg now t st)
            = Inr \<lparr>accessToken = next_access_token cfg now user,
                   refreshToken = next_refresh_token cfg now user\<rparr>)"
proof (intro conjI impI)
  assume "refreshToken_findUnique st t = None
            \<or> (refreshToken_findUnique st t = Some r \<and> isRevoked r)"
  then show "refreshAccessToken tz cfg now t st
            = (Inl (AuthenticationError ''Token has been revoked''), st)"
    using refresh_missing [OF assms] refresh_revoked [OF assms] by blast
next
  assume "refreshToken_findUnique st t = Some r \<and> \<not> isRevoked r \<and> expiresAt r < now"
  then show "refreshAccessToken tz cfg now t st
            = (Inl (AuthenticationError ''Token has expired''), st)"
    using refresh_expired [OF assms] by blast
next
  assume "fst (refreshAccessToken tz cfg now t st) = Inr tp"
  from refresh_success_conditions [OF this]
  show "\<exists>r'. refreshToken_findUnique st t = Some r' \<and> \<not> isRevoked r' \<and> \<not> expiresAt r' < now"
    by blast
next
  assume a: "refreshToken_findUnique st t = Some r \<and> \<not> isRevoked r \<and> \<not> expiresAt r < now
            \<and> user_findUnique_id st (userId r) = Some user
            \<and> refreshToken_findUnique st (next_refresh_token cfg now user) = None"
  have "refreshAccessToken tz cfg now t st =
           (Inr \<lparr>accessToken = next_access_token cfg now user,
                  refreshToken = next_refresh_token cfg now user\<rparr>,
            rotated tz cfg now r user st)"
    using a by (intro refresh_succeeds [OF assms]) simp_all
  then show "fst (refreshAccessToken tz cfg now t st)
            = Inr \<lparr>accessToken = next_access_token cfg now user,
                   refreshToken = next_refresh_token cfg now user\<rparr>"
    by simp
qed

text \<open>
  Claim C2, as amended. Let \<open>t\<close> be a token that the verification accepts at \<open>now\<close>
  (signed with the configured key, embedded expiry not elapsed) and whose type is
  \<open>refresh\<close>. When no row holds \<open>t\<close>, or the row is revoked, \<open>refreshAccessToken\<close>
  fails with \<open>Token has been revoked\<close> in both cases; when the row is not revoked and
  its \<open>expiresAt\<close> has elapsed, it fails with \<open>Token has expired\<close>; in all three the
  store is unchanged. It returns a pair only if a row exists, is not revoked and its
  \<open>expiresAt\<close> has not elapsed; and it does return the pair signed at \<open>now\<close> for the
  row's user when these hold, the user of the row exists (the foreign key) and the refresh
  token signed at \<open>now\<close> is not already stored. A token signed with the configured key
  whose embedded expiry has elapsed fails with \<open>Invalid refresh token\<close> and leaves the
  store unchanged, whatever the store holds.
\<close>

theorem refresh_validity:
  "(jwt_verify t (secret cfg) now = Inr p \<and> p_type p = refresh \<longrightarrow>
      (refreshToken_findUnique st t = None
            \<or> (refreshToken_findUnique st t = Some r \<and> isRevoked r) \<longrightarrow>
          refreshAccessToken tz cfg now t st
            = (Inl (AuthenticationError ''Token has been revoked''), st))
       \<and> (refreshToken_findUnique st t = Some r \<and> \<not> isRevoked r \<and> expiresAt r < now \<longrightarrow>
          refreshAccessToken tz cfg now t st
            = (Inl (AuthenticationError ''Token has expired''), st))
       \<and> (fst (refreshAccessToken tz cfg now t st) = Inr tp \<longrightarrow>
          (\<exists>r'. refreshToken_findUnique st t = Some r' \<and> \<not> isRevoked r'
                \<and> \<not> expiresAt r' < now))
       \<and> (refreshToken_findUnique st t = Some r \<and> \<not> isRevoked r \<and> \<not> expiresAt r < now
            \<and> user_findUnique_id st (userId r) = Some user
            \<and> refreshToken_findUnique st (next_refresh_token cfg now user) = None \<longrightarrow>
          fst (refreshAccessToken tz cfg now t st)
            = Inr \<lparr>accessToken = next_access_token cfg now user,
                   refreshToken = next_refresh_token cfg now user\<rparr>))
   \<and> (exp q \<le> now div 1000 \<longrightarrow>
        refreshAccessToken tz cfg now (Signed q (secret cfg)) st'
          = (Inl (AuthenticationError ''Invalid refresh token''), st'))"
proof (rule conjI)
  show "jwt_verify t (secret cfg) now = Inr p \<and> p_type p = refresh \<longrightarrow>
      (refreshToken_findUnique st t = None
            \<or> (refreshToken_findUnique st t = Some r \<and> isRevoked r) \<longrightarrow>
          refreshAccessToken tz cfg now t st
            = (Inl (AuthenticationError ''Token has been revoked''), st))
       \<and> (refreshToken_findUnique st t = Some r \<and> \<not> isRevoked r \<and> expiresAt r < now \<longrightarrow>
          refreshAccessToken tz cfg now t st
            = (Inl (AuthenticationError ''Token has expired''), st))
       \<and> (fst (refreshAccessToken tz cfg now t st) = Inr tp \<longrightarrow>
          (\<exists>r'. refreshToken_findUnique st t = Some r' \<and> \<not> isRevoked r'
                \<and> \<not> expiresAt r' < now))
       \<and> (refreshToken_findUnique st t = Some r \<and> \<not> isRevoked r \<and> \<not> expiresAt r < now
            \<and> user_findUnique_id st (userId r) = Some user
            \<and> refreshToken_findUnique st (next_refresh_token cfg now user) = None \<longrightarrow>
          fst (refreshAccessToken tz cfg now t st)
            = Inr \<lparr>accessToken = next_access_token cfg now user,
                   refreshToken = next_refresh_token cfg now user\<rparr>)"
  proof (rule impI)
    assume "jwt_verify t (secret cfg) now = Inr p \<and> p_type p = refresh"
    then have v: "jwt_verify t (secret cfg) now = Inr p" and ty: "p_type p = refresh"
      by simp_all
    show "(refreshToken_findUnique st t = None
            \<or> (refreshToken_findUnique st t = Some r \<and> isRevoked r) \<longrightarrow>
          refreshAccessToken tz cfg now t st
            = (Inl (AuthenticationError ''Token has been revoked''), st))
       \<and> (refreshToken_findUnique st t = Some r \<and> \<not> isRevoked r \<and> expiresAt r < now \<longrightarrow>
          refreshAccessToken tz cfg now t st
            = (Inl (AuthenticationError ''Token has expired''), st))
       \<and> (fst (refreshAccessToken tz cfg now t st) = Inr tp \<longrightarrow>
          (\<exists>r'. refreshToken_findUnique st t = Some r' \<and> \<not> isRevoked r'
                \<and> \<not> expiresAt r' < now))
       \<and> (refreshToken_findUnique st t = Some r \<and> \<not> isRevoked r \<and> \<not> expiresAt r < now
            \<and> user_findUnique_id st (userId r) = Some user
            \<and> refreshToken_findUnique st (next_refresh_token cfg now user) = None \<longrightarrow>
          fst (refreshAccessToken tz cfg now t st)
            = Inr \<lparr>accessToken = next_access_token cfg now user,
                   refreshToken = next_refresh_token cfg now user\<rparr>)"
      by (rule refresh_accepted_token [OF v ty])
  qed
next
  show "exp q \<le> now div 1000 \<longrightarrow>
        refreshAccessToken tz cfg now (Signed q (secret cfg)) st'
          = (Inl (AuthenticationError ''Invalid refresh token''), st')"
  proof (rule impI)
    assume "exp q \<le> now div 1000"
    then have "jwt_verify (Signed q (secret cfg)) (secret cfg) now
                 = Inl (TokenExpiredError ''jwt expired'')"
      by simp
    then show "refreshAccessToken tz cfg now (Signed q (secret cfg)) st'
          = (Inl (AuthenticationError ''Invalid refresh token''), st')"
      by (rule refresh_unverified)
  qed
qed

lemma ex_verify:
  "e > now div 1000 \<Longrightarrow>
   jwt_verify (ex_token u ty i e) (secret ex_cfg) now
     = Inr \<lparr>sub = u, p_email = (if u = 1 then ''a@x.com'' else ''b@x.com''), p_role = USER,
            p_type = ty, iat = i, exp = e\<rparr>"
  by (simp add: ex_token_def ex_cfg_simps)

lemma ex_db_tokens:
  "refreshToken_findUnique ex_db (ex_token 1 refresh 0 3600)
     = Some (ex_row 1 (ex_token 1 refresh 0 3600) 1 False)"
  "refreshToken_findUnique ex_db (ex_token 1 refresh 5 3605)
     = Some (ex_row 2 (ex_token 1 refresh 5 3605) 1 False)"
  "refreshToken_findUnique ex_db (ex_token 2 refresh 0 3600)
     = Some (ex_row 3 (ex_token 2 refresh 0 3600) 2 False)"
  "refreshToken_findUnique ex_db (ex_token 1 refresh 9 3609) = None"
  "refreshToken_findUnique ex_db (ex_token 2 refresh 9 3609) = None"
  by (simp_all add: refreshToken_findUnique_def ex_db_def ex_row_def ex_token_def)

lemma ex_db_long_tokens:
  "refreshToken_findUnique ex_db_long (ex_token 1 refresh 0 2592000)
     = Some (ex_row 1 (ex_token 1 refresh 0 2592000) 1 False)"
  "refreshToken_findUnique ex_db_long (ex_token 2 refresh 0 3600)
     = Some (ex_row 2 (ex_token 2 refresh 0 3600) 2 True)"
  by (simp_all add: refreshToken_findUnique_def ex_db_long_def ex_row_def ex_token_def)

lemma ex_next_tokens:
  "next_refresh_token ex_cfg 9000 ex_alice = ex_token 1 refresh 9 3609"
  "next_refresh_token ex_cfg 9000 ex_bob = ex_token 2 refresh 9 3609"
  "next_access_token ex_cfg 9000 ex_alice = ex_token 1 access 9 909"
  "next_access_token ex_cfg 9000 ex_bob = ex_token 2 access 9 909"
  by (simp_all add: next_refresh_token_def next_access_token_def jwt_sign_def ex_cfg_simps
      ex_alice_def ex_bob_def ex_token_def)

theorem refresh_validity_witness:
  "refreshAccessToken utc_zone ex_cfg 9000 (ex_token 1 refresh 9 3609) ex_db
     = (Inl (AuthenticationError ''Token has been revoked''), ex_db)
   \<and> refreshAccessToken utc_zone ex_cfg 9000 (ex_token 2 refresh 0 3600) ex_db_long
     = (Inl (AuthenticationError ''Token has been revoked''), ex_db_long)
   \<and> refreshAccessToken utc_zone ex_cfg 700000000 (ex_token 1 refresh 0 2592000) ex_db_long
     = (Inl (AuthenticationError ''Token has expired''), ex_db_long)
   \<and> fst (refreshAccessToken utc_zone ex_cfg 9000 (ex_token 1 refresh 0 3600) ex_db)
     = Inr \<lparr>accessToken = ex_token 1 access 9 909, refreshToken = ex_token 1 refresh 9 3609\<rparr>
   \<and> (\<exists>r'. refreshToken_findUnique ex_db (ex_token 1 refresh 0 3600) = Some r'
          \<and> \<not> isRevoked r' \<and> \<not> expiresAt r' < 9000)
   \<and> refreshAccessToken utc_zone ex_cfg 3600000 (ex_token 1 refresh 0 3600) ex_db
     = (Inl (AuthenticationError ''Invalid refresh token''), ex_db)"
proof -
  have v1: "jwt_verify (ex_token 1 refresh 9 3609) (secret ex_cfg) 9000
     = Inr \<lparr>sub = 1, p_email = ''a@x.com'', p_role = USER, p_type = refresh, iat = 9, exp = 3609\<rparr>"
    by (simp add: ex_verify)
  have v2: "jwt_verify (ex_token 2 refresh 0 3600) (secret ex_cfg) 9000
     = Inr \<lparr>sub = 2, p_email = ''b@x.com'', p_role = USER, p_type = refresh, iat = 0, exp = 3600\<rparr>"
    by (simp add: ex_verify)
  have v3: "jwt_verify (ex_token 1 refresh 0 2592000) (secret ex_cfg) 700000000
     = Inr \<lparr>sub = 1, p_email = ''a@x.com'', p_role = USER, p_type = refresh, iat = 0,
            exp = 2592000\<rparr>"
    by (simp add: ex_verify)
  have v4: "jwt_verify (ex_token 1 refresh 0 3600) (secret ex_cfg) 9000
     = Inr \<lparr>sub = 1, p_email = ''a@x.com'', p_role = USER, p_type = refresh, iat = 0, exp = 3600\<rparr>"
    by (simp add: ex_verify)
  have a: "refreshAccessToken utc_zone ex_cfg 9000 (ex_token 1 refresh 9 3609) ex_db
     = (Inl (AuthenticationError ''Token has been revoked''), ex_db)"
    using v1 ex_db_tokens
      refresh_validity [where tz = utc_zone and cfg = ex_cfg and now = 9000 and st = ex_db
        and t = "ex_token 1 refresh 9 3609"
        and p = "\<lparr>sub = 1, p_email = ''a@x.com'', p_role = USER, p_type = refresh, iat = 9,
                  exp = 3609\<rparr>"]
    by simp
  have b: "refreshAccessToken utc_zone ex_cfg 9000 (ex_token 2 refresh 0 3600) ex_db_long
     = (Inl (AuthenticationError ''Token has been revoked''), ex_db_long)"
    using v2 ex_db_long_tokens
      refresh_validity [where tz = utc_zone and cfg = ex_cfg and now = 9000 and st = ex_db_long
        and t = "ex_token 2 refresh 0 3600"
        and p = "\<lparr>sub = 2, p_email = ''b@x.com'', p_role = USER, p_type = refresh, iat = 0,
                  exp = 3600\<rparr>"
        and r = "ex_row 2 (ex_token 2 refresh 0 3600) 2 True"]
    by (simp add: ex_row_def)
  have c: "refreshAccessToken utc_zone ex_cfg 700000000 (ex_token 1 refresh 0 2592000) ex_db_long
     = (Inl (AuthenticationError ''Token has expired''), ex_db_long)"
    using v3 ex_db_long_tokens
      refresh_validity [where tz = utc_zone and cfg = ex_cfg and now = 700000000
        and st = ex_db_long and t = "ex_token 1 refresh 0 2592000"
        and p = "\<lparr>sub = 1, p_email = ''a@x.com'', p_role = USER, p_type = refresh, iat = 0,
                  exp = 2592000\<rparr>"
        and r = "ex_row 1 (ex_token 1 refresh 0 2592000) 1 False"]
    by (simp add: ex_row_def)
  have d: "fst (refreshAccessToken utc_zone ex_cfg 9000 (ex_token 1 refresh 0 3600) ex_db)
     = Inr \<lparr>accessToken = ex_token 1 access 9 909, refreshToken = ex_token 1 refresh 9 3609\<rparr>"
    using v4 ex_db_tokens ex_db_ids ex_next_tokens
      refresh_validity [where tz = utc_zone and cfg = ex_cfg and now = 9000 and st = ex_db
        and t = "ex_token 1 refresh 0 3600"
        and p = "\<lparr>sub = 1, p_email = ''a@x.com'', p_role = USER, p_type = refresh, iat = 0,
                  exp = 3600\<rparr>"
        and r = "ex_row 1 (ex_token 1 refresh 0 3600) 1 False" and user = ex_alice]
    by (simp add: ex_row_def)
  have e: "\<exists>r'. refreshToken_findUnique ex_db (ex_token 1 refresh 0 3600) = Some r'
          \<and> \<not> isRevoked r' \<and> \<not> expiresAt r' < 9000"
    using v4 d
      refresh_validity [where tz = utc_zone and cfg = ex_cfg and now = 9000 and st = ex_db
        and t = "ex_token 1 refresh 0 3600"
        and p = "\<lparr>sub = 1, p_email = ''a@x.com'', p_role = USER, p_type = refresh, iat = 0,
                  exp = 3600\<rparr>"
        and tp = "\<lparr>accessToken = ex_token 1 access 9 909, refreshToken = ex_token 1 refresh 9 3609\<rparr>"]
    by simp
  have f: "refreshAccessToken utc_zone ex_cfg 3600000 (ex_token 1 refresh 0 3600) ex_db
     = (Inl (AuthenticationError ''Invalid refresh token''), ex_db)"
    using refresh_validity [where tz = utc_zone and cfg = ex_cfg and now = 3600000
        and st' = ex_db
        and q = "\<lparr>sub = 1, p_email = ''a@x.com'', p_role = USER, p_type = refresh, iat = 0,
                  exp = 3600\<rparr>"]
    by (simp add: ex_token_def ex_cfg_simps)
  show ?thesis using a b c d e f by simp
qed

text \<open>
  Claim C2 as stated fails. The first row of the sample store holds the refresh token that
  was signed for user 1 at time 0 under \<open>ex_cfg\<close> (refresh duration one hour); the row
  is not revoked and its \<open>expiresAt\<close> lies seven days ahead. Presented after one hour,
  the token is well signed and of type \<open>refresh\<close>, its row exists, is not revoked and
  not expired, and yet no pair is minted: the embedded expiry has elapsed and the answer
  is \<open>Invalid refresh token\<close>. Presented after half a second, within the clock second
  of its issuance, no pair is minted either: the new refresh token is the same string as
  the presented one and the unique constraint rejects it.
\<close>

theorem refresh_validity_counterexample:
  "ex_token 1 refresh 0 3600
     = jwt_sign \<lparr>sub = 1, p_email = ''a@x.com'', p_role = USER, p_type = refresh\<rparr>
         (secret ex_cfg) (parseDuration (refreshTokenExpiresIn ex_cfg)) 0
   \<and> refreshToken_findUnique ex_db (ex_token 1 refresh 0 3600)
       = Some (ex_row 1 (ex_token 1 refresh 0 3600) 1 False)
   \<and> \<not> isRevoked (ex_row 1 (ex_token 1 refresh 0 3600) 1 False)
   \<and> 3600000 < expiresAt (ex_row 1 (ex_token 1 refresh 0 3600) 1 False)
   \<and> refreshAccessToken utc_zone ex_cfg 3600000 (ex_token 1 refresh 0 3600) ex_db
       = (Inl (AuthenticationError ''Invalid refresh token''), ex_db)
   \<and> 500 < expiresAt (ex_row 1 (ex_token 1 refresh 0 3600) 1 False)
   \<and> fst (refreshAccessToken utc_zone ex_cfg 500 (ex_token 1 refresh 0 3600) ex_db)
       = Inl (PrismaClientKnownRequestError ''P2002'')"
  by (simp add: ex_db_tokens)
     (simp add: refreshAccessToken_def refreshToken_update_revoke_def
      generateTokens_def Let_def jwt_sign_def setDate_plus7_def utc_zone_def msPerDay_def
      refreshToken_create_def refreshToken_findUnique_def user_findUnique_id_def ex_cfg_simps
      ex_db_def ex_alice_def ex_bob_def ex_row_def ex_token_def)

section \<open>Refresh and the activity flag\<close>

lemma find_user_id_map:
  "(\<And>x. user_id (g x) = user_id x) \<Longrightarrow>
   find (\<lambda>u. user_id u = i) (map g xs) = map_option g (find (\<lambda>u. user_id u = i) xs)"
  by (induction xs) auto

lemma set_isActive_simps:
  "refreshTokens (set_isActive f st) = refreshTokens st"
  "users (set_isActive f st) = map (\<lambda>u. u\<lparr>isActive := f u\<rparr>) (users st)"
  "set_isActive f (st\<lparr>refreshTokens := rs\<rparr>) = (set_isActive f st)\<lparr>refreshTokens := rs\<rparr>"
  by (simp_all add: set_isActive_def)

lemma set_isActive_findUnique:
  "refreshToken_findUnique (set_isActive f st) t = refreshToken_findUnique st t"
  "user_findUnique_id (set_isActive f st) i
     = map_option (\<lambda>u. u\<lparr>isActive := f u\<rparr>) (user_findUnique_id st i)"
  by (simp_all add: refreshToken_findUnique_def user_findUnique_id_def set_isActive_simps
      find_user_id_map)

lemma set_isActive_create:
  "refreshToken_create (set_isActive f st) now t u ea
     = map_sum id (set_isActive f) (refreshToken_create st now t u ea)"
  by (simp add: refreshToken_create_def set_isActive_findUnique set_isActive_simps)

lemma set_isActive_generateTokens:
  "generateTokens tz cfg now user (set_isActive f st)
     = (case generateTokens tz cfg now user st of (res, st') \<Rightarrow> (res, set_isActive f st'))"
  by (cases user; cases "refreshToken_create st now
        (jwt_sign \<lparr>sub = fst user, p_email = fst (snd user), p_role = snd (snd user),
                   p_type = refresh\<rparr> (secret cfg)
           (parseDuration (refreshTokenExpiresIn cfg)) now) (fst user) (setDate_plus7 tz now)")
     (simp_all add: generateTokens_def Let_def set_isActive_create)

lemma set_isActive_update_revoke:
  "refreshToken_update_revoke (set_isActive f st) i
     = map_sum id (set_isActive f) (refreshToken_update_revoke st i)"
  by (simp add: refreshToken_update_revoke_def set_isActive_simps)

lemma refresh_ignores_isActive:
  "refreshAccessToken tz cfg now t (set_isActive f st)
     = (case refreshAccessToken tz cfg now t st of (res, st') \<Rightarrow> (res, set_isActive f st'))"
proof (cases "jwt_verify t (secret cfg) now")
  case (Inl e)
  then show ?thesis by (simp add: refresh_unverified)
next
  case (Inr p)
  note v = this
  show ?thesis
  proof (cases "p_type p = refresh")
    case False
    then show ?thesis using v by (simp add: refresh_wrong_type)
  next
    case True
    note ty = this
    show ?thesis
    proof (cases "refreshToken_findUnique st t")
      case None
      then show ?thesis using v ty
        by (simp add: refresh_missing set_isActive_findUnique)
    next
      case (Some r)
      note r = this
      then have r': "refreshToken_findUnique (set_isActive f st) t = Some r"
        by (simp add: set_isActive_findUnique)
      show ?thesis
      proof (cases "isRevoked r")
        case True
        then show ?thesis using refresh_revoked [OF v ty r] refresh_revoked [OF v ty r']
          by simp
      next
        case False
        note nr = this
        show ?thesis
        proof (cases "expiresAt r < now")
          case True
          then show ?thesis
            using refresh_expired [OF v ty r nr] refresh_expired [OF v ty r' nr] by simp
        next
          case False
          show ?thesis
            unfolding refresh_valid_reduces [OF v ty r nr False]
              refresh_valid_reduces [OF v ty r' nr False]
            by (cases "user_findUnique_id st (userId r)")
               (simp_all add: set_isActive_findUnique set_isActive_simps
                  set_isActive_generateTokens [symmetric])
        qed
      qed
    qed
  qed
qed

text \<open>
  Claim C10, as amended. \<open>refreshAccessToken\<close> never reads the \<open>isActive\<close> flag:
  replacing the flag of every user in any way changes neither its result nor what it does
  to the store. In particular, for a token that the verification accepts (well signed,
  embedded expiry not elapsed) with type \<open>refresh\<close>, whose row exists, is not revoked
  and not expired, it returns the pair signed at \<open>now\<close> whatever the flag of the owning
  user is, provided the refresh token signed at \<open>now\<close> is not already stored. For a
  user with \<open>isActive = false\<close>, \<open>login\<close> fails with \<open>Account is disabled\<close> and
  the gate fails with \<open>User not found or inactive\<close>.
\<close>

theorem refresh_ignores_disabled_account:
  "refreshAccessToken tz cfg now t (set_isActive f st)
     = (case refreshAccessToken tz cfg now t st of (res, st') \<Rightarrow> (res, set_isActive f st'))
   \<and> (jwt_verify t (secret cfg) now = Inr p \<and> p_type p = refresh
        \<and> refreshToken_findUnique st t = Some r \<and> \<not> isRevoked r \<and> \<not> expiresAt r < now
        \<and> user_findUnique_id st (userId r) = Some user
        \<and> refreshToken_findUnique st (next_refresh_token cfg now user) = None \<longrightarrow>
       fst (refreshAccessToken tz cfg now t st)
         = Inr \<lparr>accessToken = next_access_token cfg now user,
                refreshToken = next_refresh_token cfg now user\<rparr>)
   \<and> (user_findUnique_email st (l_email ld) = Some user \<and> \<not> isActive user \<longrightarrow>
       fst (login vp tz cfg now ld st) = Inl (AuthenticationError ''Account is disabled''))
   \<and> (jwt_verify a (secret cfg) now = Inr q \<and> p_type q = access
        \<and> user_findUnique_id st (sub q) = Some user \<and> \<not> isActive user \<longrightarrow>
       authenticate cfg now \<lparr>authorization = Some (Bearer a)\<rparr> st
         = Inl (AuthenticationError ''User not found or inactive''))"
proof (intro conjI impI)
  show "refreshAccessToken tz cfg now t (set_isActive f st)
     = (case refreshAccessToken tz cfg now t st of (res, st') \<Rightarrow> (res, set_isActive f st'))"
    by (rule refresh_ignores_isActive)
next
  assume a: "jwt_verify t (secret cfg) now = Inr p \<and> p_type p = refresh
        \<and> refreshToken_findUnique st t = Some r \<and> \<not> isRevoked r \<and> \<not> expiresAt r < now
        \<and> user_findUnique_id st (userId r) = Some user
        \<and> refreshToken_findUnique st (next_refresh_token cfg now user) = None"
  have "refreshAccessToken tz cfg now t st =
           (Inr \<lparr>accessToken = next_access_token cfg now user,
                  refreshToken = next_refresh_token cfg now user\<rparr>,
            rotated tz cfg now r user st)"
    using a by (intro refresh_succeeds [where p = p]) simp_all
  then show "fst (refreshAccessToken tz cfg now t st)
         = Inr \<lparr>accessToken = next_access_token cfg now user,
                refreshToken = next_refresh_token cfg now user\<rparr>"
    by simp
next
  assume "user_findUnique_email st (l_email ld) = Some user \<and> \<not> isActive user"
  then show "fst (login vp tz cfg now ld st) = Inl (AuthenticationError ''Account is disabled'')"
    by (simp add: login_def)
next
  assume a: "jwt_verify a (secret cfg) now = Inr q \<and> p_type q = access
        \<and> user_findUnique_id st (sub q) = Some user \<and> \<not> isActive user"
  then have "truthy a" using verified_is_truthy by blast
  then show "authenticate cfg now \<lparr>authorization = Some (Bearer a)\<rparr> st
         = Inl (AuthenticationError ''User not found or inactive'')"
    using a by (simp add: authenticate_def authenticate_try_def extractToken_def)
qed

theorem refresh_ignores_disabled_account_witness:
  "\<not> isActive ex_bob
   \<and> fst (refreshAccessToken utc_zone ex_cfg 9000 (ex_token 2 refresh 0 3600) ex_db)
       = Inr \<lparr>accessToken = ex_token 2 access 9 909, refreshToken = ex_token 2 refresh 9 3609\<rparr>
   \<and> fst (refreshAccessToken utc_zone ex_cfg 9000 (ex_token 2 refresh 0 3600)
            (set_isActive (\<lambda>u. True) ex_db))
       = Inr \<lparr>accessToken = ex_token 2 access 9 909, refreshToken = ex_token 2 refresh 9 3609\<rparr>
   \<and> fst (login ex_verifyPassword utc_zone ex_cfg 9000 \<lparr>l_email = ''b@x.com'', l_password = ''Hunter22''\<rparr> ex_db)
       = Inl (AuthenticationError ''Account is disabled'')
   \<and> authenticate ex_cfg 9000 \<lparr>authorization = Some (Bearer (ex_token 2 access 0 900))\<rparr> ex_db
       = Inl (AuthenticationError ''User not found or inactive'')"
proof -
  have b: "\<not> isActive ex_bob" by (simp add: ex_bob_def)
  have v: "jwt_verify (ex_token 2 refresh 0 3600) (secret ex_cfg) 9000
     = Inr \<lparr>sub = 2, p_email = ''b@x.com'', p_role = USER, p_type = refresh, iat = 0, exp = 3600\<rparr>"
    by (simp add: ex_verify)
  have va: "jwt_verify (ex_token 2 access 0 900) (secret ex_cfg) 9000
     = Inr \<lparr>sub = 2, p_email = ''b@x.com'', p_role = USER, p_type = access, iat = 0, exp = 900\<rparr>"
    by (simp add: ex_verify)
  note w = refresh_ignores_disabled_account [where tz = utc_zone and cfg = ex_cfg and now = 9000
      and t = "ex_token 2 refresh 0 3600" and st = ex_db and f = "\<lambda>u. True"
      and r = "ex_row 3 (ex_token 2 refresh 0 3600) 2 False" and user = ex_bob
      and p = "\<lparr>sub = 2, p_email = ''b@x.com'', p_role = USER, p_type = refresh, iat = 0, exp = 3600\<rparr>"
      and ld = "\<lparr>l_email = ''b@x.com'', l_password = ''Hunter22''\<rparr>" and vp = ex_verifyPassword
      and a = "ex_token 2 access 0 900"
      and q = "\<lparr>sub = 2, p_email = ''b@x.com'', p_role = USER, p_type = access, iat = 0, exp = 900\<rparr>"]
  have s: "fst (refreshAccessToken utc_zone ex_cfg 9000 (ex_token 2 refresh 0 3600) ex_db)
       = Inr \<lparr>accessToken = ex_token 2 access 9 909, refreshToken = ex_token 2 refresh 9 3609\<rparr>"
    using w v b ex_db_tokens ex_db_ids ex_next_tokens by (simp add: ex_row_def)
  have s': "fst (refreshAccessToken utc_zone ex_cfg 9000 (ex_token 2 refresh 0 3600)
            (set_isActive (\<lambda>u. True) ex_db))
       = Inr \<lparr>accessToken = ex_token 2 access 9 909, refreshToken = ex_token 2 refresh 9 3609\<rparr>"
    using w s by (simp add: case_prod_beta)
  have l: "fst (login ex_verifyPassword utc_zone ex_cfg 9000 \<lparr>l_email = ''b@x.com'', l_password = ''Hunter22''\<rparr> ex_db)
       = Inl (AuthenticationError ''Account is disabled'')"
    using w b ex_db_emails by simp
  have g: "authenticate ex_cfg 9000 \<lparr>authorization = Some (Bearer (ex_token 2 access 0 900))\<rparr> ex_db
       = Inl (AuthenticationError ''User not found or inactive'')"
    using w va b ex_db_ids by simp
  show ?thesis using b s s' l g by simp
qed

text \<open>
  Claim C10 as stated fails. The third row of the sample store holds the refresh token
  signed at time 0 for user 2, whose account is disabled; the row is not revoked and its
  \<open>expiresAt\<close> lies seven days ahead. Presented after one hour the well-signed token is
  refused with \<open>Invalid refresh token\<close>, its embedded expiry of one hour having
  elapsed; presented within the clock second of its issuance it is refused by the unique
  constraint on the token column.
\<close>

theorem refresh_ignores_disabled_account_counterexample:
  "\<not> isActive ex_bob
   \<and> user_findUnique_id ex_db 2 = Some ex_bob
   \<and> ex_token 2 refresh 0 3600
       = jwt_sign \<lparr>sub = 2, p_email = ''b@x.com'', p_role = USER, p_type = refresh\<rparr>
           (secret ex_cfg) (parseDuration (refreshTokenExpiresIn ex_cfg)) 0
   \<and> refreshToken_findUnique ex_db (ex_token 2 refresh 0 3600)
       = Some (ex_row 3 (ex_token 2 refresh 0 3600) 2 False)
   \<and> \<not> isRevoked (ex_row 3 (ex_token 2 refresh 0 3600) 2 False)
   \<and> 3600000 < expiresAt (ex_row 3 (ex_token 2 refresh 0 3600) 2 False)
   \<and> refreshAccessToken utc_zone ex_cfg 3600000 (ex_token 2 refresh 0 3600) ex_db
       = (Inl (AuthenticationError ''Invalid refresh token''), ex_db)
   \<and> 500 < expiresAt (ex_row 3 (ex_token 2 refresh 0 3600) 2 False)
   \<and> fst (refreshAccessToken utc_zone ex_cfg 500 (ex_token 2 refresh 0 3600) ex_db)
       = Inl (PrismaClientKnownRequestError ''P2002'')"
  by (simp add: ex_db_tokens ex_db_ids)
     (simp add: refreshAccessToken_def refreshToken_update_revoke_def
      generateTokens_def Let_def jwt_sign_def setDate_plus7_def utc_zone_def msPerDay_def
      refreshToken_create_def refreshToken_findUnique_def user_findUnique_id_def ex_cfg_simps
      ex_db_def ex_alice_def ex_bob_def ex_row_def ex_token_def)

section \<open>Refresh: rotation is single use\<close>

lemma revoked_in_iff:
  "revoked_in st t = (\<exists>r. refreshToken_findUnique st t = Some r \<and> isRevoked r)"
  by (simp add: revoked_in_def split: option.split)

lemma revoked_in_users [simp]: "revoked_in (st\<lparr>users := us\<rparr>) t = revoked_in st t"
  by (simp add: revoked_in_def refreshToken_findUnique_def)

lemma revoked_in_map:
  assumes "\<And>x. token (f x) = token x" and "\<And>x. isRevoked x \<Longrightarrow> isRevoked (f x)"
    and "revoked_in st t"
  shows "revoked_in (st\<lparr>refreshTokens := map f (refreshTokens st)\<rparr>) t"
  using assms(2,3)
  by (auto simp: revoked_in_iff refreshToken_findUnique_def find_token_map [of f, OF assms(1)])

lemma revoked_in_append:
  "revoked_in st t \<Longrightarrow> revoked_in (st\<lparr>refreshTokens := refreshTokens st @ ys\<rparr>) t"
  by (auto simp: revoked_in_iff refreshToken_findUnique_def find_append_old)

lemma revoked_in_updateMany:
  "revoked_in st t \<Longrightarrow> revoked_in (refreshToken_updateMany_revoke st wh) t"
  unfolding refreshToken_updateMany_revoke_def
  by (rule revoked_in_map) simp_all

lemma revoked_in_update:
  "revoked_in st t \<Longrightarrow> refreshToken_update_revoke st i = Inr st' \<Longrightarrow> revoked_in st' t"
  unfolding refreshToken_update_revoke_def
  by (auto split: if_splits intro!: revoked_in_map)

lemma revoked_in_create:
  "revoked_in st t \<Longrightarrow> refreshToken_create st now t' u ea = Inr st' \<Longrightarrow> revoked_in st' t"
  unfolding refreshToken_create_def
  by (auto split: if_splits intro!: revoked_in_append)

lemma revoked_in_generateTokens:
  assumes "revoked_in st t"
  shows "revoked_in (snd (generateTokens tz cfg now user st)) t"
proof (cases user)
  case (fields uid e r)
  show ?thesis
    using assms revoked_in_create [OF assms]
    by (auto simp: generateTokens_def Let_def fields split: sum.splits)
qed

lemma revoked_in_generateTokens_eq:
  "generateTokens tz cfg now user st = (res, st') \<Longrightarrow> revoked_in st t \<Longrightarrow> revoked_in st' t"
  using revoked_in_generateTokens [of st t tz cfg now user] by simp

lemma revoked_in_logout: "revoked_in st t \<Longrightarrow> revoked_in (logout uid rt st) t"
  by (simp add: logout_def revoked_in_updateMany split: option.split)

lemma revoked_in_register:
  assumes "revoked_in st t"
  shows "revoked_in (snd (register hp tz cfg now d st)) t"
proof -
  have c: "user_create st now e n h fn ln = Inr (u, st1) \<Longrightarrow> revoked_in st1 t" for e n h fn ln u st1
    using assms by (auto simp: user_create_def Let_def split: if_splits)
  show ?thesis
    using assms
    by (auto simp: register_def split: sum.splits prod.splits
        intro: revoked_in_generateTokens_eq c)
qed

lemma revoked_in_login:
  assumes "revoked_in st t"
  shows "revoked_in (snd (login vp tz cfg now d st)) t"
proof -
  have c: "user_update_lastLoginAt st i now = Inr st1 \<Longrightarrow> revoked_in st1 t" for i st1
    using assms by (auto simp: user_update_lastLoginAt_def split: if_splits)
  show ?thesis
    using assms
    by (auto simp: login_def split: sum.splits prod.splits option.splits
        intro: revoked_in_generateTokens_eq c)
qed

lemma revoked_in_refresh:
  assumes "revoked_in st t"
  shows "revoked_in (snd (refreshAccessToken tz cfg now t' st)) t"
  using assms revoked_in_update [OF assms] revoked_in_generateTokens
  by (auto simp: refreshAccessToken_def Let_def split: sum.splits prod.splits option.splits)

lemma revoked_in_handle:
  "revoked_in st t \<Longrightarrow> revoked_in (handle hp vp tz cfg now c st) t"
  by (cases c)
     (simp_all add: revoked_in_register revoked_in_login revoked_in_refresh revoked_in_logout)

lemma revoked_in_serve:
  "revoked_in st t \<Longrightarrow> revoked_in (serve hp vp tz cfg cs st) t"
proof (induction cs arbitrary: st)
  case Nil
  then show ?case by simp
next
  case (Cons c cs)
  obtain now x where c: "c = (now, x)" by (cases c)
  show ?case unfolding c serve.simps
    by (rule Cons.IH) (rule revoked_in_handle [OF Cons.prems])
qed

lemma revoked_replay:
  assumes "revoked_in st t"
  shows "refreshAccessToken tz cfg now t st =
           (Inl (AuthenticationError
                  (case jwt_verify t (secret cfg) now of
                     Inl e \<Rightarrow> ''Invalid refresh token''
                   | Inr p \<Rightarrow> if p_type p \<noteq> refresh then ''Invalid token type''
                              else ''Token has been revoked'')), st)"
proof -
  obtain r where r: "refreshToken_findUnique st t = Some r" "isRevoked r"
    using assms by (auto simp: revoked_in_iff)
  show ?thesis
  proof (cases "jwt_verify t (secret cfg) now")
    case (Inl e)
    then show ?thesis by (simp add: refresh_unverified)
  next
    case (Inr p)
    then show ?thesis
      using refresh_wrong_type [OF Inr] refresh_revoked [OF Inr _ r]
      by (cases "p_type p = refresh") simp_all
  qed
qed

lemma jwt_verify_same_payload:
  "jwt_verify t k now = Inr p \<Longrightarrow> jwt_verify t k now2 = Inr p' \<Longrightarrow> p' = p"
  by (cases t) (auto split: if_splits)

lemma jwt_verify_Signed:
  "jwt_verify t k now = Inr p \<Longrightarrow> t = Signed p k"
  by (cases t) (auto split: if_splits)

lemma rotated_old_row:
  assumes "refreshToken_findUnique st t = Some r"
  shows "refreshToken_findUnique (rotated tz cfg now r user st) t = Some (r\<lparr>isRevoked := True\<rparr>)"
proof -
  let ?f = "\<lambda>x. if rt_id x = rt_id r then x\<lparr>isRevoked := True\<rparr> else x"
  have tok: "\<And>x. token (?f x) = token x" by simp
  have "find (\<lambda>x. token x = t) (map ?f (refreshTokens st)) = Some (?f r)"
    using assms unfolding refreshToken_findUnique_def
    by (simp add: find_token_map [of ?f, OF tok])
  then show ?thesis
    unfolding refreshToken_findUnique_def rotated_def
    by (simp add: find_append_old)
qed

lemma rotated_new_row:
  assumes "refreshToken_findUnique st (next_refresh_token cfg now user) = None"
  shows "refreshToken_findUnique (rotated tz cfg now r user st) (next_refresh_token cfg now user)
           = Some \<lparr>rt_id = next_id (map rt_id (refreshTokens st)),
                   token = next_refresh_token cfg now user, userId = user_id user,
                   expiresAt = setDate_plus7 tz now, isRevoked = False, rt_createdAt = now\<rparr>"
proof -
  let ?f = "\<lambda>x. if rt_id x = rt_id r then x\<lparr>isRevoked := True\<rparr> else x"
  have tok: "\<And>x. token (?f x) = token x" by simp
  have "find (\<lambda>x. token x = next_refresh_token cfg now user) (map ?f (refreshTokens st)) = None"
    using assms unfolding refreshToken_findUnique_def
    by (simp add: find_token_map [of ?f, OF tok])
  then show ?thesis
    unfolding refreshToken_findUnique_def rotated_def
    by (simp add: find_append_new)
qed

lemma refresh_success_result:
  assumes "fst (refreshAccessToken tz cfg now t st) = Inr tp"
  shows "\<exists>p r user. jwt_verify t (secret cfg) now = Inr p \<and> p_type p = refresh
           \<and> refreshToken_findUnique st t = Some r
           \<and> user_findUnique_id st (userId r) = Some user
           \<and> refreshToken_findUnique st (next_refresh_token cfg now user) = None
           \<and> tp = \<lparr>accessToken = next_access_token cfg now user,
                    refreshToken = next_refresh_token cfg now user\<rparr>
           \<and> snd (refreshAccessToken tz cfg now t st) = rotated tz cfg now r user st"
proof -
  from refresh_success_conditions [OF assms]
  obtain p r user where c: "jwt_verify t (secret cfg) now = Inr p" "p_type p = refresh"
      "refreshToken_findUnique st t = Some r" "\<not> isRevoked r" "\<not> expiresAt r < now"
      "user_findUnique_id st (userId r) = Some user"
      "refreshToken_findUnique st (next_refresh_token cfg now user) = None"
    by blast
  note s = refresh_succeeds [OF c]
  have "tp = \<lparr>accessToken = next_access_token cfg now user,
                    refreshToken = next_refresh_token cfg now user\<rparr>"
    using assms s by simp
  then show ?thesis using c s by auto
qed

text \<open>
  Claim C1, as amended. When \<open>refreshAccessToken\<close> returns a pair for the token \<open>t\<close>,
  the stored row of \<open>t\<close> has \<open>isRevoked = true\<close> afterwards. Every later call with
  \<open>t\<close>, after any list of register, login, refresh and logout requests, fails and leaves
  the store as it is: with \<open>Token has been revoked\<close> while \<open>t\<close> still passes the
  verification, and with \<open>Invalid refresh token\<close> once its embedded expiry has elapsed.
  The new refresh token of the pair, presented next while it passes the verification and
  while the \<open>expiresAt\<close> of its stored row has not elapsed, succeeds, provided the token
  that this second call signs (the same claims, stamped at the second call) is not
  already stored.
\<close>

theorem refresh_single_use:
  assumes "fst (refreshAccessToken tz cfg now t st) = Inr tp"
  shows "(\<exists>r. refreshToken_findUnique (snd (refreshAccessToken tz cfg now t st)) t = Some r
              \<and> isRevoked r)
       \<and> refreshAccessToken tz cfg now2 t
            (serve hp vp tz cfg calls (snd (refreshAccessToken tz cfg now t st)))
           = (Inl (AuthenticationError
                    (case jwt_verify t (secret cfg) now2 of
                       Inl e \<Rightarrow> ''Invalid refresh token''
                     | Inr p \<Rightarrow> ''Token has been revoked'')),
              serve hp vp tz cfg calls (snd (refreshAccessToken tz cfg now t st)))
       \<and> ((\<exists>p. jwt_verify (refreshToken tp) (secret cfg) now3 = Inr p)
            \<and> refreshToken_findUnique (snd (refreshAccessToken tz cfg now t st))
                 (refreshToken tp) = Some r'
            \<and> \<not> expiresAt r' < now3
            \<and> refreshToken_findUnique (snd (refreshAccessToken tz cfg now t st))
                 (reissued cfg now3 (refreshToken tp)) = None \<longrightarrow>
           (\<exists>tp'. fst (refreshAccessToken tz cfg now3 (refreshToken tp)
                          (snd (refreshAccessToken tz cfg now t st))) = Inr tp'
                  \<and> refreshToken tp' = reissued cfg now3 (refreshToken tp)))"
proof -
  from refresh_success_result [OF assms]
  obtain p r user where c: "jwt_verify t (secret cfg) now = Inr p" "p_type p = refresh"
      "refreshToken_findUnique st t = Some r"
      "user_findUnique_id st (userId r) = Some user"
      "refreshToken_findUnique st (next_refresh_token cfg now user) = None"
      "tp = \<lparr>accessToken = next_access_token cfg now user,
                    refreshToken = next_refresh_token cfg now user\<rparr>"
      "snd (refreshAccessToken tz cfg now t st) = rotated tz cfg now r user st"
    by blast
  let ?st' = "rotated tz cfg now r user st"
  have old: "refreshToken_findUnique ?st' t = Some (r\<lparr>isRevoked := True\<rparr>)"
    using c(3) by (rule rotated_old_row)
  have dead: "revoked_in ?st' t" using old by (simp add: revoked_in_iff)
  have A: "\<exists>r. refreshToken_findUnique ?st' t = Some r \<and> isRevoked r"
    using old by simp
  have msg: "(case jwt_verify t (secret cfg) now2 of
                     Inl e \<Rightarrow> ''Invalid refresh token''
                   | Inr p \<Rightarrow> if p_type p \<noteq> refresh then ''Invalid token type''
                              else ''Token has been revoked'')
           = (case jwt_verify t (secret cfg) now2 of
                       Inl e \<Rightarrow> ''Invalid refresh token''
                     | Inr p \<Rightarrow> ''Token has been revoked'')"
    using jwt_verify_same_payload [OF c(1)] c(2)
    by (cases "jwt_verify t (secret cfg) now2") auto
  have B: "refreshAccessToken tz cfg now2 t (serve hp vp tz cfg calls ?st')
           = (Inl (AuthenticationError
                    (case jwt_verify t (secret cfg) now2 of
                       Inl e \<Rightarrow> ''Invalid refresh token''
                     | Inr p \<Rightarrow> ''Token has been revoked'')),
              serve hp vp tz cfg calls ?st')"
    using revoked_replay [OF revoked_in_serve [OF dead, of hp vp tz cfg calls],
        where tz = tz and cfg = cfg and now = now2] msg
    by simp
  have C: "\<exists>tp'. fst (refreshAccessToken tz cfg now3 (refreshToken tp) ?st') = Inr tp'
                  \<and> refreshToken tp' = reissued cfg now3 (refreshToken tp)"
    if v: "\<exists>p. jwt_verify (refreshToken tp) (secret cfg) now3 = Inr p"
      and s: "refreshToken_findUnique ?st' (refreshToken tp) = Some r'"
      and e: "\<not> expiresAt r' < now3"
      and n: "refreshToken_findUnique ?st' (reissued cfg now3 (refreshToken tp)) = None"
  proof -
    let ?new = "next_refresh_token cfg now user"
    let ?row = "\<lparr>rt_id = next_id (map rt_id (refreshTokens st)),
                   token = ?new, userId = user_id user,
                   expiresAt = setDate_plus7 tz now, isRevoked = False, rt_createdAt = now\<rparr>"
    have tp: "refreshToken tp = ?new" using c(6) by simp
    obtain p' where v': "jwt_verify ?new (secret cfg) now3 = Inr p'" using v tp by auto
    have ty: "p_type p' = refresh"
      using jwt_verify_Signed [OF v'] by (auto simp: next_refresh_token_def jwt_sign_def)
    have row: "refreshToken_findUnique ?st' ?new = Some ?row"
      using c(5) by (rule rotated_new_row)
    have r': "r' = ?row" using s tp row by simp
    have uid: "user_id user = userId r"
      using c(4) unfolding user_findUnique_id_def by (rule find_Some_P)
    have u: "user_findUnique_id ?st' (userId ?row) = Some user"
      using c(4) uid by (simp add: user_findUnique_id_def rotated_def)
    have re: "reissued cfg now3 ?new = next_refresh_token cfg now3 user"
      by (simp add: next_refresh_token_def jwt_sign_def)
    have n': "refreshToken_findUnique ?st' (next_refresh_token cfg now3 user) = None"
      using n tp re by simp
    have "refreshAccessToken tz cfg now3 ?new ?st' =
           (Inr \<lparr>accessToken = next_access_token cfg now3 user,
                  refreshToken = next_refresh_token cfg now3 user\<rparr>,
            rotated tz cfg now3 ?row user ?st')"
      using e r' by (intro refresh_succeeds [OF v' ty row _ _ u n']) simp_all
    then show ?thesis using tp re by simp
  qed
  show ?thesis
    unfolding c(7) using A B C by blast
qed

lemma ex_rotate_alice:
  "refreshAccessToken utc_zone ex_cfg 9000 (ex_token 1 refresh 0 3600) ex_db
     = (Inr \<lparr>accessToken = ex_token 1 access 9 909, refreshToken = ex_token 1 refresh 9 3609\<rparr>,
        ex_db_rotated)"
  by (simp add: refreshAccessToken_def refreshToken_update_revoke_def
      generateTokens_def Let_def jwt_sign_def setDate_plus7_def utc_zone_def msPerDay_def next_id_def
      refreshToken_create_def refreshToken_findUnique_def user_findUnique_id_def ex_cfg_simps
      ex_db_rotated_def ex_db_def ex_alice_def ex_bob_def ex_row_def ex_token_def)

lemma ex_db_rotated_fresh:
  "refreshToken_findUnique ex_db_rotated (reissued ex_cfg 12000 (ex_token 1 refresh 9 3609)) = None"
  by (simp add: refreshToken_findUnique_def ex_db_rotated_def ex_row_def ex_token_def
      jwt_sign_def ex_cfg_simps)

theorem refresh_single_use_witness:
  "fst (refreshAccessToken utc_zone ex_cfg 9000 (ex_token 1 refresh 0 3600) ex_db)
     = Inr \<lparr>accessToken = ex_token 1 access 9 909, refreshToken = ex_token 1 refresh 9 3609\<rparr>
   \<and> (\<exists>r. refreshToken_findUnique ex_db_rotated (ex_token 1 refresh 0 3600) = Some r
          \<and> isRevoked r)
   \<and> fst (refreshAccessToken utc_zone ex_cfg 12000 (ex_token 1 refresh 0 3600)
        (serve ex_hashPassword ex_verifyPassword utc_zone ex_cfg
           [(10000, Login \<lparr>l_email = ''a@x.com'', l_password = ''Passw0rd''\<rparr>),
            (11000, Logout 2 None)] ex_db_rotated))
       = Inl (AuthenticationError ''Token has been revoked'')
   \<and> refreshToken_findUnique ex_db_rotated (ex_token 1 refresh 9 3609)
       = Some \<lparr>rt_id = 4, token = ex_token 1 refresh 9 3609, userId = 1,
                expiresAt = 604809000, isRevoked = False, rt_createdAt = 9000\<rparr>
   \<and> (\<exists>tp'. fst (refreshAccessToken utc_zone ex_cfg 12000 (ex_token 1 refresh 9 3609) ex_db_rotated)
               = Inr tp'
            \<and> refreshToken tp' = ex_token 1 refresh 12 3612)"
proof -
  have s: "fst (refreshAccessToken utc_zone ex_cfg 9000 (ex_token 1 refresh 0 3600) ex_db)
     = Inr \<lparr>accessToken = ex_token 1 access 9 909, refreshToken = ex_token 1 refresh 9 3609\<rparr>"
    by (simp only: ex_rotate_alice fst_conv)
  have st: "snd (refreshAccessToken utc_zone ex_cfg 9000 (ex_token 1 refresh 0 3600) ex_db) = ex_db_rotated"
    by (simp only: ex_rotate_alice snd_conv)
  have v2: "jwt_verify (ex_token 1 refresh 0 3600) (secret ex_cfg) 12000
     = Inr \<lparr>sub = 1, p_email = ''a@x.com'', p_role = USER, p_type = refresh, iat = 0, exp = 3600\<rparr>"
    by (simp add: ex_verify)
  have v3: "jwt_verify (ex_token 1 refresh 9 3609) (secret ex_cfg) 12000
     = Inr \<lparr>sub = 1, p_email = ''a@x.com'', p_role = USER, p_type = refresh, iat = 9, exp = 3609\<rparr>"
    by (simp add: ex_verify)
  have row: "refreshToken_findUnique ex_db_rotated (ex_token (Suc 0) refresh 9 3609)
     = Some \<lparr>rt_id = 4, token = ex_token 1 refresh 9 3609, userId = 1,
              expiresAt = 604809000, isRevoked = False, rt_createdAt = 9000\<rparr>"
    by (simp add: refreshToken_findUnique_def ex_db_rotated_def ex_row_def ex_token_def)
  have re: "reissued ex_cfg 12000 (ex_token (Suc 0) refresh 9 3609)
              = ex_token (Suc 0) refresh 12 3612"
    by (simp add: ex_token_def jwt_sign_def ex_cfg_simps)
  show ?thesis
    using s v2 v3 row ex_db_rotated_fresh
      refresh_single_use [OF s, where ?now2.0 = 12000 and ?now3.0 = 12000
        and r' = "\<lparr>rt_id = 4, token = ex_token 1 refresh 9 3609, userId = 1,
                   expiresAt = 604809000, isRevoked = False, rt_createdAt = 9000\<rparr>"
        and hp = ex_hashPassword and vp = ex_verifyPassword
        and calls = "[(10000, Login \<lparr>l_email = ''a@x.com'', l_password = ''Passw0rd''\<rparr>),
                      (11000, Logout 2 None)]"]
    unfolding st
    by (simp add: re)
qed

text \<open>
  Claim C1 as stated fails. Under \<open>ex_cfg\<close> (refresh duration one hour) the first token
  of the sample store is rotated at clock reading 9000. Replayed after one hour, the old
  token is refused with \<open>Invalid refresh token\<close>, not with the revoked-token message:
  its embedded expiry has elapsed and the verification fails before the store is read.
  And the new refresh token, presented half a second after it was issued, does not
  succeed: the call signs the same string again and the unique constraint rejects it.
\<close>

theorem refresh_single_use_counterexample:
  "refreshAccessToken utc_zone ex_cfg 9000 (ex_token 1 refresh 0 3600) ex_db
     = (Inr \<lparr>accessToken = ex_token 1 access 9 909, refreshToken = ex_token 1 refresh 9 3609\<rparr>,
        ex_db_rotated)
   \<and> refreshAccessToken utc_zone ex_cfg 3600000 (ex_token 1 refresh 0 3600) ex_db_rotated
       = (Inl (AuthenticationError ''Invalid refresh token''), ex_db_rotated)
   \<and> AuthenticationError ''Invalid refresh token'' \<noteq> AuthenticationError ''Token has been revoked''
   \<and> fst (refreshAccessToken utc_zone ex_cfg 9500 (ex_token 1 refresh 9 3609) ex_db_rotated)
       = Inl (PrismaClientKnownRequestError ''P2002'')"
proof (intro conjI)
  show "refreshAccessToken utc_zone ex_cfg 9000 (ex_token 1 refresh 0 3600) ex_db
     = (Inr \<lparr>accessToken = ex_token 1 access 9 909, refreshToken = ex_token 1 refresh 9 3609\<rparr>,
        ex_db_rotated)"
    by (rule ex_rotate_alice)
  show "refreshAccessToken utc_zone ex_cfg 3600000 (ex_token 1 refresh 0 3600) ex_db_rotated
       = (Inl (AuthenticationError ''Invalid refresh token''), ex_db_rotated)"
    by (simp add: refreshAccessToken_def ex_cfg_simps ex_token_def)
  show "AuthenticationError ''Invalid refresh token'' \<noteq> AuthenticationError ''Token has been revoked''"
    by simp
  show "fst (refreshAccessToken utc_zone ex_cfg 9500 (ex_token 1 refresh 9 3609) ex_db_rotated)
       = Inl (PrismaClientKnownRequestError ''P2002'')"
    by (simp add: refreshAccessToken_def refreshToken_update_revoke_def
        generateTokens_def Let_def jwt_sign_def setDate_plus7_def utc_zone_def msPerDay_def
        refreshToken_create_def refreshToken_findUnique_def user_findUnique_id_def ex_cfg_simps
        ex_db_rotated_def ex_alice_def ex_bob_def ex_row_def ex_token_def)
qed

end
